theory Spec2Isabelle
  imports Complex_Main
begin

section \<open>Numbers, vectors and bodies\<close>

text \<open>
  The numbers of the program are IEEE doubles. They are modelled as real numbers: no
  rounding, no NaN and no infinity. Where the source divides, HOL's \<open>x / 0 = 0\<close> is not
  what the program computes (it computes an infinity or NaN), so every theorem whose truth
  depends on a divisor states that the divisor is not zero. An unbounded \<open>maxForce\<close> or
  \<open>maxBias\<close> (the default \<open>Infinity\<close>) is outside the model: the bounds are real numbers.
\<close>

datatype vect = Vect (vx: real) (vy: real)

text \<open>
  Modelled from the spec: \<open>vect.ts\<close> is not among the sources; the spec names its
  contents only as "2D vector ops". The definitions below are the usual ones of the
  Chipmunk family (sum, difference, scaling, dot and cross product, quarter turn,
  rotation by a unit vector, length, normalisation, projection, clamping to a length).
\<close>

definition vzero :: vect where
  "vzero = Vect 0 0"

definition vadd :: "vect \<Rightarrow> vect \<Rightarrow> vect" where
  "vadd v1 v2 = Vect (vx v1 + vx v2) (vy v1 + vy v2)"

definition vsub :: "vect \<Rightarrow> vect \<Rightarrow> vect" where
  "vsub v1 v2 = Vect (vx v1 - vx v2) (vy v1 - vy v2)"

definition vmult :: "vect \<Rightarrow> real \<Rightarrow> vect" where
  "vmult v s = Vect (vx v * s) (vy v * s)"

definition vdot :: "vect \<Rightarrow> vect \<Rightarrow> real" where
  "vdot v1 v2 = vx v1 * vx v2 + vy v1 * vy v2"

definition vcross :: "vect \<Rightarrow> vect \<Rightarrow> real" where
  "vcross v1 v2 = vx v1 * vy v2 - vy v1 * vx v2"

definition vperp :: "vect \<Rightarrow> vect" where
  "vperp v = Vect (- vy v) (vx v)"

definition vrotate :: "vect \<Rightarrow> vect \<Rightarrow> vect" where
  "vrotate v1 v2 = Vect (vx v1 * vx v2 - vy v1 * vy v2) (vx v1 * vy v2 + vy v1 * vx v2)"

definition vlength :: "vect \<Rightarrow> real" where
  "vlength v = sqrt (vdot v v)"

definition vnormalize :: "vect \<Rightarrow> vect" where
  "vnormalize v = vmult v (1 / vlength v)"

definition vproject :: "vect \<Rightarrow> vect \<Rightarrow> vect" where
  "vproject v1 v2 = vmult v2 (vdot v1 v2 / vdot v2 v2)"

definition vclamp :: "vect \<Rightarrow> real \<Rightarrow> vect" where
  "vclamp v len = (if vdot v v > len * len then vmult (vnormalize v) len else v)"

text \<open>
  Modelled from the spec: \<open>util.ts\<close> is not among the sources. \<open>clamp\<close> limits a number to
  the closed range from \<open>minv\<close> to \<open>maxv\<close>, as \<open>Math.min(Math.max(f, minv), maxv)\<close>.
\<close>

definition clamp :: "real \<Rightarrow> real \<Rightarrow> real \<Rightarrow> real" where
  "clamp f minv maxv = min (max f minv) maxv"

text \<open>
  The body, as far as the constraints read and write it: position \<open>p\<close>, rotation \<open>rot\<close>,
  angle \<open>a\<close>, linear velocity \<open>v\<close>, angular velocity \<open>w\<close>, inverse mass \<open>m_inv\<close>, moment of
  inertia \<open>i\<close> and its inverse \<open>i_inv\<close> (which \<open>ratchet-joint.ts\<close> calls \<open>inertiaInv\<close>). The
  field names carry the prefix \<open>b_\<close>.
\<close>

record body =
  b_p :: vect
  b_rot :: vect
  b_a :: real
  b_v :: vect
  b_w :: real
  b_m_inv :: real
  b_i :: real
  b_i_inv :: real

text \<open>
  Modelled from the spec: \<open>constraints/util.ts\<close> is not among the sources. An impulse
  \<open>(jx, jy)\<close> applied at offset \<open>r\<close> adds \<open>j * m_inv\<close> to the linear and
  \<open>i_inv * (r \<times> j)\<close> to the angular velocity; \<open>apply_impulses\<close> applies \<open>-j\<close> to the first
  body and \<open>j\<close> to the second. The relative velocity is that of the second anchor minus
  that of the first, \<open>k_scalar\<close> is the inverse effective mass along \<open>n\<close>, and \<open>kTensor\<close> with
  \<open>multK\<close> are the 2x2 effective mass matrix and its product with a vector.
\<close>

definition apply_impulse :: "body \<Rightarrow> real \<Rightarrow> real \<Rightarrow> vect \<Rightarrow> body" where
  "apply_impulse bd jx jy r =
     bd\<lparr>b_v := Vect (vx (b_v bd) + jx * b_m_inv bd) (vy (b_v bd) + jy * b_m_inv bd),
        b_w := b_w bd + b_i_inv bd * (vx r * jy - vy r * jx)\<rparr>"

definition apply_impulses :: "body \<Rightarrow> body \<Rightarrow> vect \<Rightarrow> vect \<Rightarrow> real \<Rightarrow> real \<Rightarrow> body \<times> body" where
  "apply_impulses a b r1 r2 jx jy = (apply_impulse a (- jx) (- jy) r1, apply_impulse b jx jy r2)"

definition relative_velocity :: "body \<Rightarrow> body \<Rightarrow> vect \<Rightarrow> vect \<Rightarrow> vect" where
  "relative_velocity a b r1 r2 =
     vsub (vadd (b_v b) (vmult (vperp r2) (b_w b))) (vadd (b_v a) (vmult (vperp r1) (b_w a)))"

definition normal_relative_velocity :: "body \<Rightarrow> body \<Rightarrow> vect \<Rightarrow> vect \<Rightarrow> vect \<Rightarrow> real" where
  "normal_relative_velocity a b r1 r2 n = vdot (relative_velocity a b r1 r2) n"




definition multK :: "vect \<Rightarrow> vect \<Rightarrow> vect \<Rightarrow> vect" where
  "multK vr k1 k2 = Vect (vdot vr k1) (vdot vr k2)"

text \<open>
  The error decay coefficient \<open>bias_coef(errorBias, dt)\<close> (\<open>biasCoef\<close> in the newer files)
  also lives in \<open>constraints/util.ts\<close>; no claim depends on its value, so every \<open>preStep\<close>
  takes it as the parameter \<open>bc\<close>.
\<close>

type_synonym bias_coef = "real \<Rightarrow> real \<Rightarrow> real"

text \<open>
  What a call can raise: reading a property of \<open>null\<close> or \<open>undefined\<close>. \<open>OutOfFuel\<close> is not an
  outcome of the program: the loops and recursions over the tree take a bound on their
  number of steps, and this is the result when the bound is reached.
\<close>

datatype error = TypeError | OutOfFuel

section \<open>The constraints\<close>

text \<open>
  Each joint is a record of the fields of its class, with the three tunables of the
  \<open>Constraint\<close> base class (\<open>maxForce\<close>, \<open>errorBias\<close>, \<open>maxBias\<close>) first. The two bodies are
  not fields of the record: every operation takes them and returns them updated. Field
  names carry a prefix for the variant, since several classes use the same names.
\<close>

subsection \<open>GearJoint\<close>

record gear_joint =
  gear_maxForce :: real
  gear_errorBias :: real
  gear_maxBias :: real
  gear_phase :: real
  gear_ratio :: real
  gear_ratio_inv :: real
  gear_jAcc :: real
  gear_iSum :: real
  gear_bias :: real
  gear_jMax :: real


definition gear_applyImpulse :: "gear_joint \<Rightarrow> body \<Rightarrow> body \<Rightarrow> gear_joint \<times> body \<times> body" where
  "gear_applyImpulse j a b =
     (let wr = b_w b * gear_ratio j - b_w a;
          j0 = (gear_bias j - wr) * gear_iSum j;
          jOld = gear_jAcc j;
          jAcc' = clamp (jOld + j0) (- gear_jMax j) (gear_jMax j);
          j1 = jAcc' - jOld
      in (j\<lparr>gear_jAcc := jAcc'\<rparr>,
          a\<lparr>b_w := b_w a - j1 * b_i_inv a * gear_ratio_inv j\<rparr>,
          b\<lparr>b_w := b_w b + j1 * b_i_inv b\<rparr>))"

subsection \<open>RotaryLimitJoint\<close>

record rlimit_joint =
  rlimit_maxForce :: real
  rlimit_errorBias :: real
  rlimit_maxBias :: real
  rlimit_min :: real
  rlimit_max :: real
  rlimit_jAcc :: real
  rlimit_iSum :: real
  rlimit_bias :: real
  rlimit_jMax :: real

definition rlimit_preStep :: "bias_coef \<Rightarrow> real \<Rightarrow> rlimit_joint \<Rightarrow> body \<Rightarrow> body \<Rightarrow> rlimit_joint" where
  "rlimit_preStep bc dt j a b =
     (let dist = b_a b - b_a a;
          pdist = (if dist > rlimit_max j then rlimit_max j - dist
                   else if dist < rlimit_min j then rlimit_min j - dist
                   else 0);
          bias = clamp (- bc (rlimit_errorBias j) dt * pdist / dt)
                   (- rlimit_maxBias j) (rlimit_maxBias j);
          j1 = j\<lparr>rlimit_iSum := 1 / (1 / b_i a + 1 / b_i b),
                 rlimit_bias := bias,
                 rlimit_jMax := rlimit_maxForce j * dt\<rparr>
      in if bias = 0 then j1\<lparr>rlimit_jAcc := 0\<rparr> else j1)"

definition rlimit_applyImpulse :: "rlimit_joint \<Rightarrow> body \<Rightarrow> body \<Rightarrow> rlimit_joint \<times> body \<times> body" where
  "rlimit_applyImpulse j a b =
     (if rlimit_bias j = 0 then (j, a, b)
      else
        let wr = b_w b - b_w a;
            j0 = - (rlimit_bias j + wr) * rlimit_iSum j;
            jOld = rlimit_jAcc j;
            jAcc' = (if rlimit_bias j < 0 then clamp (jOld + j0) 0 (rlimit_jMax j)
                     else clamp (jOld + j0) (- rlimit_jMax j) 0);
            j1 = jAcc' - jOld
        in (j\<lparr>rlimit_jAcc := jAcc'\<rparr>,
            a\<lparr>b_w := b_w a - j1 * b_i_inv a\<rparr>,
            b\<lparr>b_w := b_w b + j1 * b_i_inv b\<rparr>))"

subsection \<open>RatchetJoint\<close>

record ratchet_joint =
  ratchet_maxForce :: real
  ratchet_errorBias :: real
  ratchet_maxBias :: real
  ratchet_angle :: real
  ratchet_phase :: real
  ratchet_ratchet :: real
  ratchet_iSum :: real
  ratchet_bias :: real
  ratchet_jAcc :: real
  ratchet_jMax :: real

definition ratchet_preStep :: "bias_coef \<Rightarrow> real \<Rightarrow> ratchet_joint \<Rightarrow> body \<Rightarrow> body \<Rightarrow> ratchet_joint" where
  "ratchet_preStep bc dt j a b =
     (let angle = ratchet_angle j;
          phase = ratchet_phase j;
          ratchet = ratchet_ratchet j;
          delta = b_a b - b_a a;
          diff = angle - delta;
          pdist = (if diff * ratchet > 0 then diff else 0);
          angle' = (if diff * ratchet > 0 then angle
                    else of_int \<lfloor>(delta - phase) / ratchet\<rfloor> * ratchet + phase);
          bias = clamp (- bc (ratchet_errorBias j) dt * pdist / dt)
                   (- ratchet_maxBias j) (ratchet_maxBias j);
          j1 = j\<lparr>ratchet_angle := angle',
                 ratchet_iSum := 1 / (b_i_inv a + b_i_inv b),
                 ratchet_bias := bias,
                 ratchet_jMax := ratchet_maxForce j * dt\<rparr>
      in if bias = 0 then j1\<lparr>ratchet_jAcc := 0\<rparr> else j1)"

definition ratchet_applyImpulse :: "ratchet_joint \<Rightarrow> body \<Rightarrow> body \<Rightarrow> ratchet_joint \<times> body \<times> body" where
  "ratchet_applyImpulse j a b =
     (if ratchet_bias j = 0 then (j, a, b)
      else
        let wr = b_w b - b_w a;
            ratchet = ratchet_ratchet j;
            j0 = - (ratchet_bias j + wr) * ratchet_iSum j;
            jOld = ratchet_jAcc j;
            jAcc' = clamp ((jOld + j0) * ratchet) 0 (ratchet_jMax j * \<bar>ratchet\<bar>) / ratchet;
            j1 = jAcc' - jOld
        in (j\<lparr>ratchet_jAcc := jAcc'\<rparr>,
            a\<lparr>b_w := b_w a - j1 * b_i_inv a\<rparr>,
            b\<lparr>b_w := b_w b + j1 * b_i_inv b\<rparr>))"

subsection \<open>PinJoint\<close>

text \<open>
  The constructor leaves \<open>r1\<close>, \<open>r2\<close> and \<open>n\<close> \<open>null\<close> until the first \<open>preStep\<close>, so they are
  options, and an operation that reads a component of one of them while it is \<open>null\<close>
  raises. \<open>assertSoft\<close> (of \<open>util.ts\<close>, not among the sources) only logs: the constructor
  returns the list of the messages it logged next to the joint.
\<close>

record pin_joint =
  pin_maxForce :: real
  pin_errorBias :: real
  pin_maxBias :: real
  pin_anchr1 :: vect
  pin_anchr2 :: vect
  pin_dist :: real
  pin_r1 :: "vect option"
  pin_r2 :: "vect option"
  pin_n :: "vect option"
  pin_nMass :: real
  pin_jnAcc :: real
  pin_jnMax :: real
  pin_bias :: real

text \<open>
  The base class constructor sets the tunables; they are the first argument here as the
  triple \<open>(maxForce, errorBias, maxBias)\<close>. A missing body (the \<open>STATIC_BODY_CHECK\<close>) is
  \<open>None\<close>.
\<close>

definition assertSoft :: "bool \<Rightarrow> string \<Rightarrow> string list" where
  "assertSoft cond msg = (if cond then [] else [msg])"

definition pin_new :: "real \<times> real \<times> real \<Rightarrow> body option \<Rightarrow> body option \<Rightarrow> vect \<Rightarrow> vect
    \<Rightarrow> pin_joint \<times> string list" where
  "pin_new tun a b anchr1 anchr2 =
     (let p1 = (case a of Some bd \<Rightarrow> vadd (b_p bd) (vrotate anchr1 (b_rot bd)) | None \<Rightarrow> anchr1);
          p2 = (case b of Some bd \<Rightarrow> vadd (b_p bd) (vrotate anchr2 (b_rot bd)) | None \<Rightarrow> anchr2);
          dist = vlength (vsub p2 p1)
      in (\<lparr>pin_maxForce = fst tun, pin_errorBias = fst (snd tun), pin_maxBias = snd (snd tun),
           pin_anchr1 = anchr1, pin_anchr2 = anchr2, pin_dist = dist,
           pin_r1 = None, pin_r2 = None, pin_n = None,
           pin_nMass = 0, pin_jnAcc = 0, pin_jnMax = 0, pin_bias = 0\<rparr>,
          assertSoft (dist > 0)
            ''You created a 0 length pin joint. A pivot joint will be much more stable.''))"


definition pin_applyImpulse :: "pin_joint \<Rightarrow> body \<Rightarrow> body \<Rightarrow> error + pin_joint \<times> body \<times> body" where
  "pin_applyImpulse j a b =
     (case (pin_r1 j, pin_r2 j, pin_n j) of
        (Some r1, Some r2, Some n) \<Rightarrow>
          let vrn = normal_relative_velocity a b r1 r2 n;
              jn0 = (pin_bias j - vrn) * pin_nMass j;
              jnOld = pin_jnAcc j;
              jnAcc' = clamp (jnOld + jn0) (- pin_jnMax j) (pin_jnMax j);
              jn = jnAcc' - jnOld;
              (a', b') = apply_impulses a b r1 r2 (vx n * jn) (vy n * jn)
          in Inr (j\<lparr>pin_jnAcc := jnAcc'\<rparr>, a', b')
      | _ \<Rightarrow> Inl TypeError)"

subsection \<open>GrooveJoint\<close>

text \<open>
  \<open>grooveTN\<close>, \<open>r1\<close>, \<open>r2\<close> and \<open>bias\<close> are \<open>null\<close> until the first \<open>preStep\<close>. The field
  \<open>clamp\<close> is \<open>groove_clamp\<close>. \<open>local2World\<close> of the body (not among the sources) is the
  position plus the rotated vector.
\<close>

record groove_joint =
  groove_maxForce :: real
  groove_errorBias :: real
  groove_maxBias :: real
  groove_grooveA :: vect
  groove_grooveB :: vect
  groove_grooveN :: vect
  groove_grooveTN :: "vect option"
  groove_anchr2 :: vect
  groove_clamp :: real
  groove_r1 :: "vect option"
  groove_r2 :: "vect option"
  groove_k1 :: vect
  groove_k2 :: vect
  groove_jAcc :: vect
  groove_jMaxLen :: real
  groove_bias :: "vect option"



definition grooveConstrain :: "groove_joint \<Rightarrow> vect \<Rightarrow> error + vect" where
  "grooveConstrain j v =
     (case groove_grooveTN j of
        None \<Rightarrow> Inl TypeError
      | Some n \<Rightarrow>
          let jClamp = (if groove_clamp j * vcross v n > 0 then v else vproject v n)
          in Inr (vclamp jClamp (groove_jMaxLen j)))"

definition groove_applyImpulse ::
    "groove_joint \<Rightarrow> body \<Rightarrow> body \<Rightarrow> error + groove_joint \<times> body \<times> body" where
  "groove_applyImpulse j a b =
     (case (groove_r1 j, groove_r2 j, groove_bias j) of
        (Some r1, Some r2, Some bias) \<Rightarrow>
          let vr = relative_velocity a b r1 r2;
              j0 = multK (vsub bias vr) (groove_k1 j) (groove_k2 j);
              jOld = groove_jAcc j
          in (case grooveConstrain j (vadd jOld j0) of
                Inl e \<Rightarrow> Inl e
              | Inr jAcc' \<Rightarrow>
                  let (a', b') = apply_impulses a b r1 r2 (vx jAcc' - vx jOld) (vy jAcc' - vy jOld)
                  in Inr (j\<lparr>groove_jAcc := jAcc'\<rparr>, a', b'))
      | _ \<Rightarrow> Inl TypeError)"

section \<open>The spec's recipe for one impulse iteration\<close>

text \<open>
  The spec describes \<open>applyImpulse\<close> in words: the unclamped impulse delta is
  \<open>(bias - relativeVelocity) * effectiveMass\<close>, it is added to the accumulated impulse and
  the new total is clamped. These two definitions follow those words; they are compared
  with the source's functions below.
\<close>

definition spec_delta :: "real \<Rightarrow> real \<Rightarrow> real \<Rightarrow> real" where
  "spec_delta bias relativeVelocity effectiveMass = (bias - relativeVelocity) * effectiveMass"

definition spec_total :: "real \<Rightarrow> real \<Rightarrow> real \<Rightarrow> real \<Rightarrow> real" where
  "spec_total jOld delta lo hi = clamp (jOld + delta) lo hi"

section \<open>Example values\<close>

text \<open>Concrete bodies and joints at which the theorems are instantiated.\<close>

definition example_body :: "real \<Rightarrow> real \<Rightarrow> body" where
  "example_body ang w = \<lparr>b_p = Vect 0 0, b_rot = Vect 1 0, b_a = ang, b_v = Vect 0 0, b_w = w,
     b_m_inv = 1, b_i = 1, b_i_inv = 1\<rparr>"

definition example_rlimit :: rlimit_joint where
  "example_rlimit = \<lparr>rlimit_maxForce = 10, rlimit_errorBias = 1 / 2, rlimit_maxBias = 100,
     rlimit_min = - 1, rlimit_max = 1, rlimit_jAcc = 5, rlimit_iSum = 1, rlimit_bias = 1,
     rlimit_jMax = 10\<rparr>"

definition example_ratchet :: ratchet_joint where
  "example_ratchet = \<lparr>ratchet_maxForce = 10, ratchet_errorBias = 1 / 2, ratchet_maxBias = 100,
     ratchet_angle = 0, ratchet_phase = 0, ratchet_ratchet = 1, ratchet_iSum = 1,
     ratchet_bias = 1, ratchet_jAcc = 5, ratchet_jMax = 10\<rparr>"

definition example_bc :: bias_coef where
  "example_bc e dt = 1 - e"

definition example_gear :: gear_joint where
  "example_gear = \<lparr>gear_maxForce = 10, gear_errorBias = 1 / 2, gear_maxBias = 100,
     gear_phase = 0, gear_ratio = 2, gear_ratio_inv = 1 / 2, gear_jAcc = 50, gear_iSum = 1,
     gear_bias = 1, gear_jMax = 10\<rparr>"

definition example_pin :: pin_joint where
  "example_pin = fst (pin_new (10, 1 / 2, 100) (Some (example_body 0 0))
     (Some ((example_body 0 0)\<lparr>b_p := Vect 3 4\<rparr>)) (Vect 0 0) (Vect 0 0))"

definition example_groove :: groove_joint where
  "example_groove = \<lparr>groove_maxForce = 10, groove_errorBias = 1 / 2, groove_maxBias = 100,
     groove_grooveA = Vect 0 0, groove_grooveB = Vect 1 0, groove_grooveN = Vect 0 1,
     groove_grooveTN = None, groove_anchr2 = Vect 0 0, groove_clamp = 0,
     groove_r1 = None, groove_r2 = None, groove_k1 = Vect 0 0, groove_k2 = Vect 0 0,
     groove_jAcc = Vect 0 0, groove_jMaxLen = 0, groove_bias = None\<rparr>"

definition example_pin_stepped :: pin_joint where
  "example_pin_stepped = example_pin\<lparr>pin_r1 := Some (Vect 0 0), pin_r2 := Some (Vect 0 0),
     pin_n := Some (Vect 1 0), pin_nMass := 1 / 2, pin_bias := 1, pin_jnMax := 10\<rparr>"

definition example_groove_stepped :: groove_joint where
  "example_groove_stepped = example_groove\<lparr>groove_grooveTN := Some (Vect 0 1),
     groove_r1 := Some (Vect 0 0), groove_r2 := Some (Vect 0 0), groove_bias := Some (Vect 0 1),
     groove_k1 := Vect 1 0, groove_k2 := Vect 0 1, groove_jMaxLen := 10\<rparr>"


section \<open>The pin joint over doubles with their special values\<close>

text \<open>
  The constraints above are modelled over the reals, where a division by zero has no
  special result. To say what the pin joint does with a zero distance, its constructor and
  \<open>preStep\<close> are modelled a second time over a number type with the special values of a
  JavaScript number: \<open>NaN\<close> and the two infinities beside the finite values. Finite
  arithmetic is exact (no rounding, no overflow) and zero has no sign: a non-zero finite
  value divided by zero gives the infinity of the sign of the dividend.
\<close>

datatype double = NaN | NegInf | Finite real | PosInf

definition dsign :: "double \<Rightarrow> real" where
  "dsign x = (case x of NaN \<Rightarrow> 0 | NegInf \<Rightarrow> - 1 | Finite r \<Rightarrow> sgn r | PosInf \<Rightarrow> 1)"

definition dinf :: "real \<Rightarrow> double" where
  "dinf s = (if s = 0 then NaN else if 0 < s then PosInf else NegInf)"

fun dneg :: "double \<Rightarrow> double" where
  "dneg NaN = NaN"
| "dneg NegInf = PosInf"
| "dneg PosInf = NegInf"
| "dneg (Finite r) = Finite (- r)"

fun dadd :: "double \<Rightarrow> double \<Rightarrow> double" where
  "dadd NaN y = NaN"
| "dadd x NaN = NaN"
| "dadd (Finite r) (Finite s) = Finite (r + s)"
| "dadd PosInf NegInf = NaN"
| "dadd NegInf PosInf = NaN"
| "dadd PosInf y = PosInf"
| "dadd NegInf y = NegInf"
| "dadd (Finite r) y = y"

definition dsub :: "double \<Rightarrow> double \<Rightarrow> double" where
  "dsub x y = dadd x (dneg y)"

fun dmul :: "double \<Rightarrow> double \<Rightarrow> double" where
  "dmul NaN y = NaN"
| "dmul x NaN = NaN"
| "dmul (Finite r) (Finite s) = Finite (r * s)"
| "dmul x y = dinf (dsign x * dsign y)"

fun ddiv :: "double \<Rightarrow> double \<Rightarrow> double" where
  "ddiv NaN y = NaN"
| "ddiv x NaN = NaN"
| "ddiv (Finite r) (Finite s) = (if s = 0 then dinf (sgn r) else Finite (r / s))"
| "ddiv (Finite r) y = Finite 0"
| "ddiv x (Finite s) = dinf (dsign x * (if s < 0 then - 1 else 1))"
| "ddiv x y = NaN"

fun dsqrt :: "double \<Rightarrow> double" where
  "dsqrt (Finite r) = (if r < 0 then NaN else Finite (sqrt r))"
| "dsqrt PosInf = PosInf"
| "dsqrt x = NaN"

text \<open>Comparison is false as soon as an operand is \<open>NaN\<close>.\<close>

fun dless :: "double \<Rightarrow> double \<Rightarrow> bool" where
  "dless NaN y = False"
| "dless x NaN = False"
| "dless x NegInf = False"
| "dless PosInf y = False"
| "dless (Finite r) (Finite s) = (r < s)"
| "dless x y = True"

text \<open>\<open>Math.max\<close> and \<open>Math.min\<close> return \<open>NaN\<close> as soon as an argument is \<open>NaN\<close>.\<close>

definition dmax :: "double \<Rightarrow> double \<Rightarrow> double" where
  "dmax x y = (if x = NaN \<or> y = NaN then NaN else if dless x y then y else x)"

definition dmin :: "double \<Rightarrow> double \<Rightarrow> double" where
  "dmin x y = (if x = NaN \<or> y = NaN then NaN else if dless y x then y else x)"

text \<open>A number is falsy when it is zero or \<open>NaN\<close>.\<close>

definition truthy :: "double \<Rightarrow> bool" where
  "truthy x = (x \<noteq> NaN \<and> x \<noteq> Finite 0)"

definition is_finite :: "double \<Rightarrow> bool" where
  "is_finite x = (case x of Finite r \<Rightarrow> True | _ \<Rightarrow> False)"

datatype dvect = DVect (dvx: double) (dvy: double)

definition dvadd :: "dvect \<Rightarrow> dvect \<Rightarrow> dvect" where
  "dvadd v1 v2 = DVect (dadd (dvx v1) (dvx v2)) (dadd (dvy v1) (dvy v2))"

definition dvsub :: "dvect \<Rightarrow> dvect \<Rightarrow> dvect" where
  "dvsub v1 v2 = DVect (dsub (dvx v1) (dvx v2)) (dsub (dvy v1) (dvy v2))"

definition dvmult :: "dvect \<Rightarrow> double \<Rightarrow> dvect" where
  "dvmult v s = DVect (dmul (dvx v) s) (dmul (dvy v) s)"

definition dvcross :: "dvect \<Rightarrow> dvect \<Rightarrow> double" where
  "dvcross v1 v2 = dsub (dmul (dvx v1) (dvy v2)) (dmul (dvy v1) (dvx v2))"

definition dvrotate :: "dvect \<Rightarrow> dvect \<Rightarrow> dvect" where
  "dvrotate v1 v2 = DVect (dsub (dmul (dvx v1) (dvx v2)) (dmul (dvy v1) (dvy v2)))
                          (dadd (dmul (dvx v1) (dvy v2)) (dmul (dvy v1) (dvx v2)))"

definition dvlength :: "dvect \<Rightarrow> double" where
  "dvlength v = dsqrt (dadd (dmul (dvx v) (dvx v)) (dmul (dvy v) (dvy v)))"

definition dclamp :: "double \<Rightarrow> double \<Rightarrow> double \<Rightarrow> double" where
  "dclamp f minv maxv = dmin (dmax f minv) maxv"

text \<open>The fields of a body that the pin joint's constructor and \<open>preStep\<close> read.\<close>

record dbody =
  db_p :: dvect
  db_rot :: dvect
  db_m_inv :: double
  db_i_inv :: double

definition d_k_scalar_body :: "dbody \<Rightarrow> dvect \<Rightarrow> dvect \<Rightarrow> double" where
  "d_k_scalar_body bd r n =
     dadd (db_m_inv bd) (dmul (db_i_inv bd) (dmul (dvcross r n) (dvcross r n)))"

definition d_k_scalar :: "dbody \<Rightarrow> dbody \<Rightarrow> dvect \<Rightarrow> dvect \<Rightarrow> dvect \<Rightarrow> double" where
  "d_k_scalar a b r1 r2 n = dadd (d_k_scalar_body a r1 n) (d_k_scalar_body b r2 n)"

record dpin_joint =
  dpin_maxForce :: double
  dpin_errorBias :: double
  dpin_maxBias :: double
  dpin_anchr1 :: dvect
  dpin_anchr2 :: dvect
  dpin_dist :: double
  dpin_r1 :: "dvect option"
  dpin_r2 :: "dvect option"
  dpin_n :: "dvect option"
  dpin_nMass :: double
  dpin_jnAcc :: double
  dpin_jnMax :: double
  dpin_bias :: double

text \<open>
  The constructor: the second component is the list of soft warnings. No path of the
  constructor throws.
\<close>

definition dpin_new :: "double \<times> double \<times> double \<Rightarrow> dbody option \<Rightarrow> dbody option \<Rightarrow> dvect \<Rightarrow> dvect
    \<Rightarrow> dpin_joint \<times> string list" where
  "dpin_new tun a b anchr1 anchr2 =
     (let p1 = (case a of Some bd \<Rightarrow> dvadd (db_p bd) (dvrotate anchr1 (db_rot bd)) | None \<Rightarrow> anchr1);
          p2 = (case b of Some bd \<Rightarrow> dvadd (db_p bd) (dvrotate anchr2 (db_rot bd)) | None \<Rightarrow> anchr2);
          dist = dvlength (dvsub p2 p1)
      in (\<lparr>dpin_maxForce = fst tun, dpin_errorBias = fst (snd tun), dpin_maxBias = snd (snd tun),
           dpin_anchr1 = anchr1, dpin_anchr2 = anchr2, dpin_dist = dist,
           dpin_r1 = None, dpin_r2 = None, dpin_n = None,
           dpin_nMass = Finite 0, dpin_jnAcc = Finite 0, dpin_jnMax = Finite 0,
           dpin_bias = Finite 0\<rparr>,
          assertSoft (dless (Finite 0) dist)
            ''You created a 0 length pin joint. A pivot joint will be much more stable.''))"

definition dpin_preStep :: "(double \<Rightarrow> double \<Rightarrow> double) \<Rightarrow> double \<Rightarrow> dpin_joint \<Rightarrow> dbody \<Rightarrow> dbody
    \<Rightarrow> dpin_joint" where
  "dpin_preStep bc dt j a b =
     (let r1 = dvrotate (dpin_anchr1 j) (db_rot a);
          r2 = dvrotate (dpin_anchr2 j) (db_rot b);
          delta = dvsub (dvadd (db_p b) r2) (dvadd (db_p a) r1);
          dist = dvlength delta;
          n = dvmult delta (ddiv (Finite 1) (if truthy dist then dist else PosInf))
      in j\<lparr>dpin_r1 := Some r1, dpin_r2 := Some r2, dpin_n := Some n,
            dpin_nMass := ddiv (Finite 1) (d_k_scalar a b r1 r2 n),
            dpin_bias := dclamp (ddiv (dmul (dneg (bc (dpin_errorBias j) dt))
                                        (dsub dist (dpin_dist j))) dt)
                           (dneg (dpin_maxBias j)) (dpin_maxBias j),
            dpin_jnMax := dmul (dpin_maxForce j) dt\<rparr>)"

text \<open>No number of a vector, of a joint is \<open>NaN\<close>; a vector is finite.\<close>

definition dv_ok :: "dvect \<Rightarrow> bool" where
  "dv_ok v = (dvx v \<noteq> NaN \<and> dvy v \<noteq> NaN)"

definition dv_finite :: "dvect \<Rightarrow> bool" where
  "dv_finite v = (is_finite (dvx v) \<and> is_finite (dvy v))"

definition dpin_ok :: "dpin_joint \<Rightarrow> bool" where
  "dpin_ok j =
     (dpin_maxForce j \<noteq> NaN \<and> dpin_errorBias j \<noteq> NaN \<and> dpin_maxBias j \<noteq> NaN \<and>
      dv_ok (dpin_anchr1 j) \<and> dv_ok (dpin_anchr2 j) \<and> dpin_dist j \<noteq> NaN \<and>
      (case dpin_r1 j of Some v \<Rightarrow> dv_ok v | None \<Rightarrow> True) \<and>
      (case dpin_r2 j of Some v \<Rightarrow> dv_ok v | None \<Rightarrow> True) \<and>
      (case dpin_n j of Some v \<Rightarrow> dv_ok v | None \<Rightarrow> True) \<and>
      dpin_nMass j \<noteq> NaN \<and> dpin_jnAcc j \<noteq> NaN \<and> dpin_jnMax j \<noteq> NaN \<and>
      dpin_bias j \<noteq> NaN)"

definition dbody_finite :: "dbody \<Rightarrow> bool" where
  "dbody_finite bd =
     (dv_finite (db_p bd) \<and> dv_finite (db_rot bd) \<and> is_finite (db_m_inv bd) \<and>
      is_finite (db_i_inv bd))"

text \<open>
  Two bodies at the origin, not rotated, pinned at their centres; \<open>maxForce\<close> and
  \<open>maxBias\<close> have their default \<open>Infinity\<close>.
\<close>

definition example_dbody :: dbody where
  "example_dbody = \<lparr>db_p = DVect (Finite 0) (Finite 0), db_rot = DVect (Finite 1) (Finite 0),
     db_m_inv = Finite 1, db_i_inv = Finite 1\<rparr>"

definition example_dpin :: "dpin_joint \<times> string list" where
  "example_dpin = dpin_new (PosInf, Finite (1 / 10), PosInf) (Some example_dbody) (Some example_dbody)
     (DVect (Finite 0) (Finite 0)) (DVect (Finite 0) (Finite 0))"

definition example_dbc :: "double \<Rightarrow> double \<Rightarrow> double" where
  "example_dbc errorBias dt = Finite (1 / 2)"
section \<open>The bounding box tree\<close>

text \<open>
  The tree is a pointer structure: nodes refer to their children and to their parent, the
  pairs are threaded through two doubly linked lists, and the pools reuse the \<open>parent\<close> and
  \<open>prevA\<close> fields as links. It is modelled with an explicit store. A reference is an
  address; \<open>null\<close> and \<open>undefined\<close> are \<open>None\<close>. Reading a property through \<open>None\<close> (or
  through an address that holds no object) raises \<open>TypeError\<close>.
\<close>

type_synonym ref = nat

text \<open>The shape, as far as the tree reads it: its identifier and its bounding box.\<close>

record shape =
  s_hashid :: nat
  s_bb_l :: real
  s_bb_b :: real
  s_bb_r :: real
  s_bb_t :: real

text \<open>
  One record serves the classes \<open>Node\<close> and \<open>Leaf\<close>, which the code tells apart by \<open>isLeaf\<close>
  and stores in the same places. A \<open>Node\<close> uses \<open>A\<close> and \<open>B\<close>, a \<open>Leaf\<close> uses \<open>stamp\<close> and
  \<open>pairs\<close>. Field names carry the prefix \<open>n_\<close>; those of \<open>Pair\<close> the prefix \<open>p_\<close>, those of
  \<open>BBTree\<close> (with the two fields it gets from \<open>SpatialIndex\<close>) the prefix \<open>t_\<close>.
\<close>

record tnode =
  n_isLeaf :: bool
  n_obj :: "ref option"
  n_bb_l :: real
  n_bb_b :: real
  n_bb_r :: real
  n_bb_t :: real
  n_parent :: "ref option"
  n_A :: "ref option"
  n_B :: "ref option"
  n_stamp :: nat
  n_pairs :: "ref option"

record pair =
  p_prevA :: "ref option"
  p_leafA :: "ref option"
  p_nextA :: "ref option"
  p_prevB :: "ref option"
  p_leafB :: "ref option"
  p_nextB :: "ref option"

text \<open>
  \<open>leaves\<close> is the object used as a hash from \<open>hashid\<close> to leaf. A \<open>for ... in\<close> loop visits
  its integer keys in ascending order, so it is kept as an association list sorted by key.
\<close>

record bbtree =
  t_staticIndex :: "ref option"
  t_dynamicIndex :: "ref option"
  t_count :: int
  t_velocityFunc :: "(shape \<Rightarrow> vect) option"
  t_leaves :: "(nat \<times> ref) list"
  t_root :: "ref option"
  t_pooledNodes :: "ref option"
  t_pooledPairs :: "ref option"
  t_stamp :: nat

text \<open>
  The store: the objects by class, the module counters \<open>numNodes\<close>, \<open>numLeaves\<close> and
  \<open>numPairs\<close>, the calls of the collision callback so far (oldest first) and the messages
  of \<open>assertSoft\<close>. A new \<open>Node\<close> or \<open>Leaf\<close> gets the address \<open>numNodes + numLeaves\<close>, a new
  \<open>Pair\<close> the address \<open>numPairs\<close>.
\<close>

record heap =
  h_nodes :: "ref \<Rightarrow> tnode option"
  h_pairs :: "ref \<Rightarrow> pair option"
  h_trees :: "ref \<Rightarrow> bbtree option"
  h_shapes :: "ref \<Rightarrow> shape option"
  h_numNodes :: nat
  h_numLeaves :: nat
  h_numPairs :: nat
  h_calls :: "(ref option \<times> ref option) list"
  h_log :: "string list"

definition bindE :: "error + 'a \<Rightarrow> ('a \<Rightarrow> error + 'b) \<Rightarrow> error + 'b" where
  "bindE m f = (case m of Inl e \<Rightarrow> Inl e | Inr x \<Rightarrow> f x)"

definition node_at :: "heap \<Rightarrow> ref option \<Rightarrow> error + tnode" where
  "node_at h r = (case r of None \<Rightarrow> Inl TypeError
     | Some a \<Rightarrow> (case h_nodes h a of None \<Rightarrow> Inl TypeError | Some n \<Rightarrow> Inr n))"

definition pair_at :: "heap \<Rightarrow> ref option \<Rightarrow> error + pair" where
  "pair_at h r = (case r of None \<Rightarrow> Inl TypeError
     | Some a \<Rightarrow> (case h_pairs h a of None \<Rightarrow> Inl TypeError | Some p \<Rightarrow> Inr p))"

definition tree_at :: "heap \<Rightarrow> ref option \<Rightarrow> error + bbtree" where
  "tree_at h r = (case r of None \<Rightarrow> Inl TypeError
     | Some a \<Rightarrow> (case h_trees h a of None \<Rightarrow> Inl TypeError | Some t \<Rightarrow> Inr t))"

definition shape_at :: "heap \<Rightarrow> ref option \<Rightarrow> error + shape" where
  "shape_at h r = (case r of None \<Rightarrow> Inl TypeError
     | Some a \<Rightarrow> (case h_shapes h a of None \<Rightarrow> Inl TypeError | Some s \<Rightarrow> Inr s))"

definition upd_node :: "ref \<Rightarrow> (tnode \<Rightarrow> tnode) \<Rightarrow> heap \<Rightarrow> heap" where
  "upd_node r f h = h\<lparr>h_nodes := (h_nodes h)(r := map_option f (h_nodes h r))\<rparr>"

definition upd_pair :: "ref \<Rightarrow> (pair \<Rightarrow> pair) \<Rightarrow> heap \<Rightarrow> heap" where
  "upd_pair r f h = h\<lparr>h_pairs := (h_pairs h)(r := map_option f (h_pairs h r))\<rparr>"

definition upd_tree :: "ref \<Rightarrow> (bbtree \<Rightarrow> bbtree) \<Rightarrow> heap \<Rightarrow> heap" where
  "upd_tree r f h = h\<lparr>h_trees := (h_trees h)(r := map_option f (h_trees h r))\<rparr>"

text \<open>A field assignment through a reference: \<open>x.f = v\<close> raises when \<open>x\<close> is \<open>null\<close>.\<close>

definition set_node :: "ref option \<Rightarrow> (tnode \<Rightarrow> tnode) \<Rightarrow> heap \<Rightarrow> error + heap" where
  "set_node r f h = bindE (node_at h r) (\<lambda>_. Inr (upd_node (the r) f h))"

definition set_pair :: "ref option \<Rightarrow> (pair \<Rightarrow> pair) \<Rightarrow> heap \<Rightarrow> error + heap" where
  "set_pair r f h = bindE (pair_at h r) (\<lambda>_. Inr (upd_pair (the r) f h))"

subsection \<open>Leaves table\<close>

fun leaves_put :: "nat \<Rightarrow> ref \<Rightarrow> (nat \<times> ref) list \<Rightarrow> (nat \<times> ref) list" where
  "leaves_put k v [] = [(k, v)]"
| "leaves_put k v ((k', v') # xs) =
     (if k = k' then (k, v) # xs
      else if k < k' then (k, v) # (k', v') # xs
      else (k', v') # leaves_put k v xs)"

definition leaves_delete :: "nat \<Rightarrow> (nat \<times> ref) list \<Rightarrow> (nat \<times> ref) list" where
  "leaves_delete k xs = filter (\<lambda>kv. fst kv \<noteq> k) xs"

subsection \<open>Boxes\<close>

record bb =
  bbl :: real
  bbb :: real
  bbr :: real
  bbt :: real

definition intersectsBB :: "tnode \<Rightarrow> bb \<Rightarrow> bool" where
  "intersectsBB n q \<longleftrightarrow>
     n_bb_l n \<le> bbr q \<and> bbl q \<le> n_bb_r n \<and> n_bb_b n \<le> bbt q \<and> bbb q \<le> n_bb_t n"

definition bbArea :: "tnode \<Rightarrow> real" where
  "bbArea n = (n_bb_r n - n_bb_l n) * (n_bb_t n - n_bb_b n)"

definition bbTreeMergedArea :: "tnode \<Rightarrow> tnode \<Rightarrow> real" where
  "bbTreeMergedArea a b =
     (max (n_bb_r a) (n_bb_r b) - min (n_bb_l a) (n_bb_l b)) *
     (max (n_bb_t a) (n_bb_t b) - min (n_bb_b a) (n_bb_b b))"

definition bbProximity :: "tnode \<Rightarrow> tnode \<Rightarrow> real" where
  "bbProximity a b =
     \<bar>n_bb_l a + n_bb_r a - n_bb_l b - n_bb_r b\<bar> + \<bar>n_bb_b a + n_bb_t a - n_bb_b b - n_bb_t b\<bar>"

definition bbTreeIntersectsNode :: "tnode \<Rightarrow> tnode \<Rightarrow> bool" where
  "bbTreeIntersectsNode a b \<longleftrightarrow>
     n_bb_l a \<le> n_bb_r b \<and> n_bb_l b \<le> n_bb_r a \<and> n_bb_b a \<le> n_bb_t b \<and> n_bb_b b \<le> n_bb_t a"

definition containsObj :: "tnode \<Rightarrow> shape \<Rightarrow> bool" where
  "containsObj n s \<longleftrightarrow>
     n_bb_l n \<le> s_bb_l s \<and> n_bb_r n \<ge> s_bb_r s \<and> n_bb_b n \<le> s_bb_b s \<and> n_bb_t n \<ge> s_bb_t s"

text \<open>\<open>getBB(obj, dest)\<close> of the tree: the box of the shape, fattened when a velocity function is set.\<close>

definition getBB :: "ref \<Rightarrow> ref option \<Rightarrow> ref option \<Rightarrow> heap \<Rightarrow> error + heap" where
  "getBB tr obj dest h =
     bindE (tree_at h (Some tr)) (\<lambda>t.
     bindE (shape_at h obj) (\<lambda>s.
       case t_velocityFunc t of
         Some velocityFunc \<Rightarrow>
           let coef = 1 / 10;
               x = (s_bb_r s - s_bb_l s) * coef;
               y = (s_bb_t s - s_bb_b s) * coef;
               v = vmult (velocityFunc s) (1 / 10)
           in set_node dest (\<lambda>n. n\<lparr>n_bb_l := s_bb_l s + min (- x) (vx v),
                                      n_bb_b := s_bb_b s + min (- y) (vy v),
                                      n_bb_r := s_bb_r s + max x (vx v),
                                      n_bb_t := s_bb_t s + max y (vy v)\<rparr>) h
       | None \<Rightarrow>
           set_node dest (\<lambda>n. n\<lparr>n_bb_l := s_bb_l s, n_bb_b := s_bb_b s,
                                  n_bb_r := s_bb_r s, n_bb_t := s_bb_t s\<rparr>) h))"

subsection \<open>Stamps\<close>

text \<open>\<open>dynamic && dynamic.stamp ? dynamic.stamp : this.stamp\<close>: a stamp of \<open>0\<close> counts as absent.\<close>

definition getStamp :: "ref \<Rightarrow> heap \<Rightarrow> error + nat" where
  "getStamp tr h =
     bindE (tree_at h (Some tr)) (\<lambda>t.
       case t_dynamicIndex t of
         None \<Rightarrow> Inr (t_stamp t)
       | Some d \<Rightarrow> bindE (tree_at h (Some d)) (\<lambda>dyn.
           Inr (if t_stamp dyn \<noteq> 0 then t_stamp dyn else t_stamp t)))"

definition incrementStamp :: "ref \<Rightarrow> heap \<Rightarrow> error + heap" where
  "incrementStamp tr h =
     bindE (tree_at h (Some tr)) (\<lambda>t.
       case t_dynamicIndex t of
         None \<Rightarrow> Inr (upd_tree tr (\<lambda>t. t\<lparr>t_stamp := t_stamp t + 1\<rparr>) h)
       | Some d \<Rightarrow> bindE (tree_at h (Some d)) (\<lambda>dyn.
           if t_stamp dyn \<noteq> 0
           then Inr (upd_tree d (\<lambda>t. t\<lparr>t_stamp := t_stamp t + 1\<rparr>) h)
           else Inr (upd_tree tr (\<lambda>t. t\<lparr>t_stamp := t_stamp t + 1\<rparr>) h)))"

subsection \<open>Nodes\<close>

definition setA :: "ref \<Rightarrow> ref option \<Rightarrow> heap \<Rightarrow> error + heap" where
  "setA this v h = set_node v (\<lambda>n. n\<lparr>n_parent := Some this\<rparr>) (upd_node this (\<lambda>n. n\<lparr>n_A := v\<rparr>) h)"

definition setB :: "ref \<Rightarrow> ref option \<Rightarrow> heap \<Rightarrow> error + heap" where
  "setB this v h = set_node v (\<lambda>n. n\<lparr>n_parent := Some this\<rparr>) (upd_node this (\<lambda>n. n\<lparr>n_B := v\<rparr>) h)"

text \<open>
  The constructor of \<open>Node\<close>, run on the object at \<open>this\<close> (a new one, or a pooled one that
  \<open>makeNode\<close> initialises again by calling \<open>node.constructor\<close>).
\<close>

definition Node_constructor :: "ref \<Rightarrow> ref option \<Rightarrow> ref option \<Rightarrow> heap \<Rightarrow> error + heap" where
  "Node_constructor this a b h =
     bindE (node_at h a) (\<lambda>na.
     bindE (node_at h b) (\<lambda>nb.
     bindE (setA this a
         (upd_node this (\<lambda>n. n\<lparr>n_isLeaf := False, n_obj := None,
                                 n_bb_l := min (n_bb_l na) (n_bb_l nb),
                                 n_bb_b := min (n_bb_b na) (n_bb_b nb),
                                 n_bb_r := max (n_bb_r na) (n_bb_r nb),
                                 n_bb_t := max (n_bb_t na) (n_bb_t nb),
                                 n_parent := None\<rparr>) h)) (\<lambda>h1.
       setB this b h1)))"

definition blank_node :: tnode where
  "blank_node = \<lparr>n_isLeaf = False, n_obj = None, n_bb_l = 0, n_bb_b = 0, n_bb_r = 0, n_bb_t = 0,
     n_parent = None, n_A = None, n_B = None, n_stamp = 0, n_pairs = None\<rparr>"

definition makeNode :: "ref \<Rightarrow> ref option \<Rightarrow> ref option \<Rightarrow> heap \<Rightarrow> error + ref \<times> heap" where
  "makeNode tr a b h =
     bindE (tree_at h (Some tr)) (\<lambda>t.
       case t_pooledNodes t of
         Some node \<Rightarrow>
           bindE (node_at h (Some node)) (\<lambda>n.
           bindE (Node_constructor node a b
                   (upd_tree tr (\<lambda>t. t\<lparr>t_pooledNodes := n_parent n\<rparr>) h)) (\<lambda>h1.
             Inr (node, h1)))
       | None \<Rightarrow>
           let node = h_numNodes h + h_numLeaves h in
           bindE (Node_constructor node a b
                   (h\<lparr>h_numNodes := h_numNodes h + 1,
                      h_nodes := (h_nodes h)(node \<mapsto> blank_node)\<rparr>)) (\<lambda>h1.
             Inr (node, h1)))"

text \<open>
  \<open>recycle\<close> is a method of both classes: a \<open>Node\<close> goes to the pool of the tree, linked
  through its \<open>parent\<close> field; for a \<open>Leaf\<close> the method is empty ("Its not worth the overhead
  to recycle leaves").
\<close>

definition Node_recycle :: "ref \<Rightarrow> ref \<Rightarrow> heap \<Rightarrow> error + heap" where
  "Node_recycle this tr h =
     bindE (tree_at h (Some tr)) (\<lambda>t.
       Inr (upd_tree tr (\<lambda>t. t\<lparr>t_pooledNodes := Some this\<rparr>)
             (upd_node this (\<lambda>n. n\<lparr>n_parent := t_pooledNodes t\<rparr>) h)))"

definition Leaf_recycle :: "ref \<Rightarrow> ref \<Rightarrow> heap \<Rightarrow> error + heap" where
  "Leaf_recycle this tr h = Inr h"

definition recycle :: "ref option \<Rightarrow> ref \<Rightarrow> heap \<Rightarrow> error + heap" where
  "recycle this tr h =
     bindE (node_at h this) (\<lambda>n.
       if n_isLeaf n then Leaf_recycle (the this) tr h else Node_recycle (the this) tr h)"

definition otherChild :: "tnode \<Rightarrow> ref option \<Rightarrow> ref option" where
  "otherChild n child = (if n_A n = child then n_B n else n_A n)"

text \<open>The loop of \<open>replaceChild\<close>: from a node up to the root, each box is set to the union of the boxes of the two children.\<close>

fun replaceChild_loop :: "nat \<Rightarrow> ref option \<Rightarrow> heap \<Rightarrow> error + heap" where
  "replaceChild_loop 0 node h = Inl OutOfFuel"
| "replaceChild_loop (Suc fuel) node h =
     (case node of
        None \<Rightarrow> Inr h
      | Some r \<Rightarrow>
          bindE (node_at h node) (\<lambda>n.
          bindE (node_at h (n_A n)) (\<lambda>a.
          bindE (node_at h (n_B n)) (\<lambda>b.
            replaceChild_loop fuel (n_parent n)
              (upd_node r (\<lambda>n. n\<lparr>n_bb_l := min (n_bb_l a) (n_bb_l b),
                                   n_bb_b := min (n_bb_b a) (n_bb_b b),
                                   n_bb_r := max (n_bb_r a) (n_bb_r b),
                                   n_bb_t := max (n_bb_t a) (n_bb_t b)\<rparr>) h)))))"

definition replaceChild :: "nat \<Rightarrow> ref option \<Rightarrow> ref option \<Rightarrow> ref option \<Rightarrow> ref \<Rightarrow> heap \<Rightarrow> error + heap" where
  "replaceChild fuel this child v tr h =
     bindE (node_at h this) (\<lambda>n.
       let h0 = h\<lparr>h_log := h_log h @
                  assertSoft (child = n_A n \<or> child = n_B n) ''Node is not a child of parent.''\<rparr>
       in bindE (if n_A n = child
                 then bindE (recycle (n_A n) tr h0) (\<lambda>h1. setA (the this) v h1)
                 else bindE (recycle (n_B n) tr h0) (\<lambda>h1. setB (the this) v h1)) (\<lambda>h2.
            replaceChild_loop fuel this h2))"

subsection \<open>Pairs and threads\<close>

definition Pair_recycle :: "ref \<Rightarrow> ref \<Rightarrow> heap \<Rightarrow> error + heap" where
  "Pair_recycle this tr h =
     bindE (tree_at h (Some tr)) (\<lambda>t.
       Inr (upd_tree tr (\<lambda>t. t\<lparr>t_pooledPairs := Some this\<rparr>)
             (upd_pair this (\<lambda>p. p\<lparr>p_prevA := t_pooledPairs t\<rparr>) h)))"

definition makePair :: "ref \<Rightarrow> ref option \<Rightarrow> ref option \<Rightarrow> ref option \<Rightarrow> ref option \<Rightarrow> heap
    \<Rightarrow> error + ref \<times> heap" where
  "makePair tr leafA nextA leafB nextB h =
     bindE (tree_at h (Some tr)) (\<lambda>t.
       case t_pooledPairs t of
         Some pr \<Rightarrow>
           bindE (pair_at h (Some pr)) (\<lambda>p.
             Inr (pr, upd_pair pr (\<lambda>p. p\<lparr>p_prevA := None, p_leafA := leafA, p_nextA := nextA,
                                          p_prevB := None, p_leafB := leafB, p_nextB := nextB\<rparr>)
                        (upd_tree tr (\<lambda>t. t\<lparr>t_pooledPairs := p_prevA p\<rparr>) h)))
       | None \<Rightarrow>
           let pr = h_numPairs h in
           Inr (pr, h\<lparr>h_numPairs := h_numPairs h + 1,
                      h_pairs := (h_pairs h)(pr \<mapsto>
                        \<lparr>p_prevA = None, p_leafA = leafA, p_nextA = nextA,
                         p_prevB = None, p_leafB = leafB, p_nextB = nextB\<rparr>)\<rparr>))"

definition unlinkThread :: "ref option \<Rightarrow> ref option \<Rightarrow> ref option \<Rightarrow> heap \<Rightarrow> error + heap" where
  "unlinkThread prev leaf next h =
     bindE (case next of
              None \<Rightarrow> Inr h
            | Some nx \<Rightarrow> bindE (pair_at h next) (\<lambda>p.
                if p_leafA p = leaf then Inr (upd_pair nx (\<lambda>p. p\<lparr>p_prevA := prev\<rparr>) h)
                else Inr (upd_pair nx (\<lambda>p. p\<lparr>p_prevB := prev\<rparr>) h))) (\<lambda>h1.
       case prev of
         Some pv \<Rightarrow> bindE (pair_at h1 prev) (\<lambda>p.
           if p_leafA p = leaf then Inr (upd_pair pv (\<lambda>p. p\<lparr>p_nextA := next\<rparr>) h1)
           else Inr (upd_pair pv (\<lambda>p. p\<lparr>p_nextB := next\<rparr>) h1))
       | None \<Rightarrow> set_node leaf (\<lambda>n. n\<lparr>n_pairs := next\<rparr>) h1)"

definition pairInsert :: "ref option \<Rightarrow> ref option \<Rightarrow> ref \<Rightarrow> heap \<Rightarrow> error + heap" where
  "pairInsert a b tr h =
     bindE (node_at h a) (\<lambda>na.
     bindE (node_at h b) (\<lambda>nb.
       let nextA = n_pairs na; nextB = n_pairs nb in
       bindE (makePair tr a nextA b nextB h) (\<lambda>(pr, h1).
         let h2 = upd_node (the a) (\<lambda>n. n\<lparr>n_pairs := Some pr\<rparr>)
                    (upd_node (the b) (\<lambda>n. n\<lparr>n_pairs := Some pr\<rparr>) h1) in
         bindE (case nextA of
                  None \<Rightarrow> Inr h2
                | Some nx \<Rightarrow> bindE (pair_at h2 nextA) (\<lambda>p.
                    if p_leafA p = a then Inr (upd_pair nx (\<lambda>p. p\<lparr>p_prevA := Some pr\<rparr>) h2)
                    else Inr (upd_pair nx (\<lambda>p. p\<lparr>p_prevB := Some pr\<rparr>) h2))) (\<lambda>h3.
           case nextB of
             None \<Rightarrow> Inr h3
           | Some nx \<Rightarrow> bindE (pair_at h3 nextB) (\<lambda>p.
               if p_leafA p = b then Inr (upd_pair nx (\<lambda>p. p\<lparr>p_prevA := Some pr\<rparr>) h3)
               else Inr (upd_pair nx (\<lambda>p. p\<lparr>p_prevB := Some pr\<rparr>) h3))))))"

text \<open>The loop of \<open>clearPairs\<close>, and the method: the list of the leaf is emptied first.\<close>

fun clearPairs_loop :: "nat \<Rightarrow> ref \<Rightarrow> ref option \<Rightarrow> ref \<Rightarrow> heap \<Rightarrow> error + heap" where
  "clearPairs_loop 0 this pr tr h = Inl OutOfFuel"
| "clearPairs_loop (Suc fuel) this pr tr h =
     (case pr of
        None \<Rightarrow> Inr h
      | Some pa \<Rightarrow>
          bindE (pair_at h pr) (\<lambda>p.
            let next = (if p_leafA p = Some this then p_nextA p else p_nextB p) in
            bindE (if p_leafA p = Some this
                   then unlinkThread (p_prevB p) (p_leafB p) (p_nextB p) h
                   else unlinkThread (p_prevA p) (p_leafA p) (p_nextA p) h) (\<lambda>h1.
            bindE (Pair_recycle pa tr h1) (\<lambda>h2.
              clearPairs_loop fuel this next tr h2))))"

definition clearPairs :: "nat \<Rightarrow> ref \<Rightarrow> ref \<Rightarrow> heap \<Rightarrow> error + heap" where
  "clearPairs fuel this tr h =
     bindE (node_at h (Some this)) (\<lambda>n.
       clearPairs_loop fuel this (n_pairs n) tr (upd_node this (\<lambda>n. n\<lparr>n_pairs := None\<rparr>) h))"

subsection \<open>Marking\<close>

text \<open>
  \<open>markLeafQuery\<close> is a method of both classes; \<open>this\<close> is the first reference. The callback
  \<open>func\<close> is modelled by whether it is given: a call appends the two shapes to \<open>h_calls\<close>.
\<close>

definition call_func :: "bool \<Rightarrow> ref option \<Rightarrow> ref option \<Rightarrow> heap \<Rightarrow> heap" where
  "call_func func obj1 obj2 h = (if func then h\<lparr>h_calls := h_calls h @ [(obj1, obj2)]\<rparr> else h)"

fun markLeafQuery :: "nat \<Rightarrow> ref option \<Rightarrow> ref option \<Rightarrow> bool \<Rightarrow> ref \<Rightarrow> bool \<Rightarrow> heap \<Rightarrow> error + heap" where
  "markLeafQuery 0 this leaf left tr func h = Inl OutOfFuel"
| "markLeafQuery (Suc fuel) this leaf left tr func h =
     bindE (node_at h this) (\<lambda>n.
     bindE (node_at h leaf) (\<lambda>nl.
       if n_isLeaf n then
         (if bbTreeIntersectsNode nl n then
            (if left then pairInsert leaf this tr h
             else
               bindE (if n_stamp n < n_stamp nl then pairInsert this leaf tr h else Inr h) (\<lambda>h1.
                 Inr (call_func func (n_obj nl) (n_obj n) h1)))
          else Inr h)
       else
         (if bbTreeIntersectsNode nl n then
            bindE (markLeafQuery fuel (n_A n) leaf left tr func h) (\<lambda>h1.
            bindE (node_at h1 this) (\<lambda>n1.
              markLeafQuery fuel (n_B n1) leaf left tr func h1))
          else Inr h)))"

text \<open>The two loops of \<open>Leaf.markSubtree\<close>: up through the ancestors, and along the pairs of a leaf with an old stamp.\<close>

fun markSubtree_up :: "nat \<Rightarrow> ref \<Rightarrow> ref \<Rightarrow> ref \<Rightarrow> bool \<Rightarrow> heap \<Rightarrow> error + heap" where
  "markSubtree_up 0 this node tr func h = Inl OutOfFuel"
| "markSubtree_up (Suc fuel) this node tr func h =
     bindE (node_at h (Some node)) (\<lambda>n.
       case n_parent n of
         None \<Rightarrow> Inr h
       | Some par \<Rightarrow>
           bindE (node_at h (Some par)) (\<lambda>np.
           bindE (if Some node = n_A np
                  then markLeafQuery fuel (n_B np) (Some this) True tr func h
                  else markLeafQuery fuel (n_A np) (Some this) False tr func h) (\<lambda>h1.
           bindE (node_at h1 (Some node)) (\<lambda>n1.
             case n_parent n1 of
               None \<Rightarrow> Inl TypeError
             | Some par1 \<Rightarrow> markSubtree_up fuel this par1 tr func h1))))"

fun markSubtree_pairs :: "nat \<Rightarrow> ref \<Rightarrow> ref option \<Rightarrow> bool \<Rightarrow> heap \<Rightarrow> error + heap" where
  "markSubtree_pairs 0 this pr func h = Inl OutOfFuel"
| "markSubtree_pairs (Suc fuel) this pr func h =
     (case pr of
        None \<Rightarrow> Inr h
      | Some _ \<Rightarrow>
          bindE (pair_at h pr) (\<lambda>p.
            if Some this = p_leafB p then
              bindE (if func
                     then bindE (node_at h (p_leafA p)) (\<lambda>na.
                          bindE (node_at h (Some this)) (\<lambda>nt.
                            Inr (call_func func (n_obj na) (n_obj nt) h)))
                     else Inr h) (\<lambda>h1.
              bindE (pair_at h1 pr) (\<lambda>p1. markSubtree_pairs fuel this (p_nextB p1) func h1))
            else markSubtree_pairs fuel this (p_nextA p) func h))"

fun markSubtree :: "nat \<Rightarrow> ref option \<Rightarrow> ref \<Rightarrow> ref option \<Rightarrow> bool \<Rightarrow> heap \<Rightarrow> error + heap" where
  "markSubtree 0 this tr staticRoot func h = Inl OutOfFuel"
| "markSubtree (Suc fuel) this tr staticRoot func h =
     bindE (node_at h this) (\<lambda>n.
       if n_isLeaf n then
         bindE (getStamp tr h) (\<lambda>stamp.
           if n_stamp n = stamp then
             bindE (case staticRoot of
                      None \<Rightarrow> Inr h
                    | Some _ \<Rightarrow> markLeafQuery fuel staticRoot this False tr func h) (\<lambda>h1.
               markSubtree_up fuel (the this) (the this) tr func h1)
           else markSubtree_pairs fuel (the this) (n_pairs n) func h)
       else
         bindE (markSubtree fuel (n_A n) tr staticRoot func h) (\<lambda>h1.
         bindE (node_at h1 this) (\<lambda>n1.
           markSubtree fuel (n_B n1) tr staticRoot func h1)))"

subsection \<open>Subtree functions\<close>

fun subtreeInsert :: "nat \<Rightarrow> ref option \<Rightarrow> ref \<Rightarrow> ref \<Rightarrow> heap \<Rightarrow> error + ref \<times> heap" where
  "subtreeInsert 0 subtree leaf tr h = Inl OutOfFuel"
| "subtreeInsert (Suc fuel) subtree leaf tr h =
     (case subtree of
        None \<Rightarrow> Inr (leaf, h)
      | Some s \<Rightarrow>
          bindE (node_at h subtree) (\<lambda>ns.
            if n_isLeaf ns then makeNode tr (Some leaf) subtree h
            else
              bindE (node_at h (n_B ns)) (\<lambda>nb.
              bindE (node_at h (n_A ns)) (\<lambda>na.
              bindE (node_at h (Some leaf)) (\<lambda>nl.
                let cost_a0 = bbArea nb + bbTreeMergedArea na nl;
                    cost_b0 = bbArea na + bbTreeMergedArea nb nl;
                    cost_a = (if cost_a0 = cost_b0 then bbProximity na nl else cost_a0);
                    cost_b = (if cost_a0 = cost_b0 then bbProximity nb nl else cost_b0)
                in
                bindE (if cost_b < cost_a
                       then bindE (subtreeInsert fuel (n_B ns) leaf tr h) (\<lambda>(r, h1).
                              setB s (Some r) h1)
                       else bindE (subtreeInsert fuel (n_A ns) leaf tr h) (\<lambda>(r, h1).
                              setA s (Some r) h1)) (\<lambda>h2.
                bindE (node_at h2 (Some leaf)) (\<lambda>nl2.
                  Inr (s, upd_node s (\<lambda>n. n\<lparr>n_bb_l := min (n_bb_l n) (n_bb_l nl2),
                                             n_bb_b := min (n_bb_b n) (n_bb_b nl2),
                                             n_bb_r := max (n_bb_r n) (n_bb_r nl2),
                                             n_bb_t := max (n_bb_t n) (n_bb_t nl2)\<rparr>) h2))))))))"

fun subtreeQuery :: "nat \<Rightarrow> ref option \<Rightarrow> bb \<Rightarrow> heap \<Rightarrow> error + ref option list" where
  "subtreeQuery 0 subtree q h = Inl OutOfFuel"
| "subtreeQuery (Suc fuel) subtree q h =
     bindE (node_at h subtree) (\<lambda>n.
       if intersectsBB n q then
         (if n_isLeaf n then Inr [n_obj n]
          else
            bindE (subtreeQuery fuel (n_A n) q h) (\<lambda>xs.
            bindE (subtreeQuery fuel (n_B n) q h) (\<lambda>ys.
              Inr (xs @ ys))))
       else Inr [])"

definition subtreeRemove :: "nat \<Rightarrow> ref option \<Rightarrow> ref option \<Rightarrow> ref \<Rightarrow> heap \<Rightarrow> error + ref option \<times> heap" where
  "subtreeRemove fuel subtree leaf tr h =
     (if leaf = subtree then Inr (None, h)
      else
        bindE (node_at h leaf) (\<lambda>nl.
          let parent = n_parent nl in
          if parent = subtree then
            bindE (node_at h subtree) (\<lambda>ns.
              let other = otherChild ns leaf in
              bindE (set_node other (\<lambda>n. n\<lparr>n_parent := n_parent ns\<rparr>) h) (\<lambda>h1.
              bindE (recycle subtree tr h1) (\<lambda>h2.
                Inr (other, h2))))
          else
            bindE (node_at h parent) (\<lambda>np.
            bindE (replaceChild fuel (n_parent np) parent (otherChild np leaf) tr h) (\<lambda>h1.
              Inr (subtree, h1)))))"

subsection \<open>Leaf functions\<close>

text \<open>The constructor of \<open>Leaf\<close>: a new object at the next address.\<close>

definition Leaf_new :: "ref \<Rightarrow> ref option \<Rightarrow> heap \<Rightarrow> error + ref \<times> heap" where
  "Leaf_new tr obj h =
     (let this = h_numNodes h + h_numLeaves h;
          h0 = h\<lparr>h_nodes := (h_nodes h)(this \<mapsto> blank_node\<lparr>n_isLeaf := True, n_obj := obj\<rparr>)\<rparr>
      in bindE (getBB tr obj (Some this) h0) (\<lambda>h1.
           Inr (this, (upd_node this (\<lambda>n. n\<lparr>n_parent := None, n_stamp := 1, n_pairs := None\<rparr>) h1)
                        \<lparr>h_numLeaves := h_numLeaves h1 + 1\<rparr>)))"

definition update :: "nat \<Rightarrow> ref \<Rightarrow> ref \<Rightarrow> heap \<Rightarrow> error + bool \<times> heap" where
  "update fuel this tr h =
     bindE (tree_at h (Some tr)) (\<lambda>t.
     bindE (node_at h (Some this)) (\<lambda>n.
     bindE (shape_at h (n_obj n)) (\<lambda>s.
       if \<not> containsObj n s then
         bindE (getBB tr (n_obj n) (Some this) h) (\<lambda>h1.
         bindE (subtreeRemove fuel (t_root t) (Some this) tr h1) (\<lambda>(root, h2).
         bindE (subtreeInsert fuel root this tr h2) (\<lambda>(root', h3).
         bindE (clearPairs fuel this tr (upd_tree tr (\<lambda>t. t\<lparr>t_root := Some root'\<rparr>) h3)) (\<lambda>h4.
         bindE (getStamp tr h4) (\<lambda>stamp.
           Inr (True, upd_node this (\<lambda>n. n\<lparr>n_stamp := stamp\<rparr>) h4))))))
       else Inr (False, h))))"

definition addPairs :: "nat \<Rightarrow> ref \<Rightarrow> ref \<Rightarrow> heap \<Rightarrow> error + heap" where
  "addPairs fuel this tr h =
     bindE (tree_at h (Some tr)) (\<lambda>t.
       case t_dynamicIndex t of
         Some dynamicIndex \<Rightarrow>
           bindE (tree_at h (Some dynamicIndex)) (\<lambda>dyn.
             case t_root dyn of
               Some _ \<Rightarrow> markLeafQuery fuel (t_root dyn) (Some this) True dynamicIndex False h
             | None \<Rightarrow> Inr h)
       | None \<Rightarrow>
           bindE (tree_at h (t_staticIndex t)) (\<lambda>st.
             markSubtree fuel (Some this) tr (t_root st) False h))"

subsection \<open>The operations of the tree\<close>

definition insert_shape :: "nat \<Rightarrow> ref \<Rightarrow> ref \<Rightarrow> heap \<Rightarrow> error + heap" where
  "insert_shape fuel tr obj h =
     bindE (Leaf_new tr (Some obj) h) (\<lambda>(leaf, h1).
     bindE (shape_at h1 (Some obj)) (\<lambda>s.
     bindE (tree_at h1 (Some tr)) (\<lambda>t.
     bindE (subtreeInsert fuel (t_root t) leaf tr
             (upd_tree tr (\<lambda>t. t\<lparr>t_leaves := leaves_put (s_hashid s) leaf (t_leaves t)\<rparr>) h1))
       (\<lambda>(root, h2).
     let h3 = upd_tree tr (\<lambda>t. t\<lparr>t_root := Some root, t_count := t_count t + 1\<rparr>) h2 in
     bindE (getStamp tr h3) (\<lambda>stamp.
     bindE (addPairs fuel leaf tr (upd_node leaf (\<lambda>n. n\<lparr>n_stamp := stamp\<rparr>) h3)) (\<lambda>h4.
       incrementStamp tr h4))))))"

definition remove_shape :: "nat \<Rightarrow> ref \<Rightarrow> ref \<Rightarrow> heap \<Rightarrow> error + heap" where
  "remove_shape fuel tr obj h =
     bindE (shape_at h (Some obj)) (\<lambda>s.
     bindE (tree_at h (Some tr)) (\<lambda>t.
       let leaf = map_of (t_leaves t) (s_hashid s);
           h1 = upd_tree tr (\<lambda>t. t\<lparr>t_leaves := leaves_delete (s_hashid s) (t_leaves t)\<rparr>) h
       in
       bindE (subtreeRemove fuel (t_root t) leaf tr h1) (\<lambda>(root, h2).
       let h3 = upd_tree tr (\<lambda>t. t\<lparr>t_root := root, t_count := t_count t - 1\<rparr>) h2 in
       bindE (node_at h3 leaf) (\<lambda>_.
       bindE (clearPairs fuel (the leaf) tr h3) (\<lambda>h4.
         recycle leaf tr h4)))))"

definition contains :: "ref \<Rightarrow> ref \<Rightarrow> heap \<Rightarrow> error + bool" where
  "contains tr obj h =
     bindE (shape_at h (Some obj)) (\<lambda>s.
     bindE (tree_at h (Some tr)) (\<lambda>t.
       Inr (map_of (t_leaves t) (s_hashid s) \<noteq> None)))"

text \<open>
  Modelled from the spec: \<open>collideStatic\<close> belongs to \<open>SpatialIndex\<close>, which is not among the
  sources. \<open>reindexQuery\<close> calls it only when the static index has no root, that is, when it
  holds no shape to collide with; it then leaves the store as it is.
\<close>

definition collideStatic :: "ref \<Rightarrow> ref \<Rightarrow> bool \<Rightarrow> heap \<Rightarrow> error + heap" where
  "collideStatic tr staticIndex func h = Inr h"

fun update_all :: "nat \<Rightarrow> ref list \<Rightarrow> ref \<Rightarrow> heap \<Rightarrow> error + heap" where
  "update_all fuel [] tr h = Inr h"
| "update_all fuel (leaf # ls) tr h =
     bindE (update fuel leaf tr h) (\<lambda>(_, h1). update_all fuel ls tr h1)"

definition reindexQuery :: "nat \<Rightarrow> ref \<Rightarrow> bool \<Rightarrow> heap \<Rightarrow> error + heap" where
  "reindexQuery fuel tr func h =
     bindE (tree_at h (Some tr)) (\<lambda>t.
       case t_root t of
         None \<Rightarrow> Inr h
       | Some _ \<Rightarrow>
           bindE (update_all fuel (map snd (t_leaves t)) tr h) (\<lambda>h1.
           bindE (tree_at h1 (Some tr)) (\<lambda>t1.
           bindE (case t_staticIndex t1 of
                    None \<Rightarrow> Inr None
                  | Some _ \<Rightarrow> bindE (tree_at h1 (t_staticIndex t1)) (\<lambda>st. Inr (t_root st)))
             (\<lambda>staticRoot.
           bindE (markSubtree fuel (t_root t1) tr staticRoot func h1) (\<lambda>h2.
           bindE (case (t_staticIndex t1, staticRoot) of
                    (Some st, None) \<Rightarrow> collideStatic tr st func h2
                  | _ \<Rightarrow> Inr h2) (\<lambda>h3.
             incrementStamp tr h3))))))"

definition reindex :: "nat \<Rightarrow> ref \<Rightarrow> heap \<Rightarrow> error + heap" where
  "reindex fuel tr h = reindexQuery fuel tr True h"

definition reindexObject :: "nat \<Rightarrow> ref \<Rightarrow> ref \<Rightarrow> heap \<Rightarrow> error + heap" where
  "reindexObject fuel tr obj h =
     bindE (shape_at h (Some obj)) (\<lambda>s.
     bindE (tree_at h (Some tr)) (\<lambda>t.
       case map_of (t_leaves t) (s_hashid s) of
         None \<Rightarrow> Inr h
       | Some leaf \<Rightarrow>
           bindE (update fuel leaf tr h) (\<lambda>(moved, h1).
           bindE (if moved then addPairs fuel leaf tr h1 else Inr h1) (\<lambda>h2.
             incrementStamp tr h2))))"

definition query :: "nat \<Rightarrow> ref \<Rightarrow> bb \<Rightarrow> heap \<Rightarrow> error + ref option list" where
  "query fuel tr q h =
     bindE (tree_at h (Some tr)) (\<lambda>t.
       case t_root t of
         None \<Rightarrow> Inr []
       | Some _ \<Rightarrow> subtreeQuery fuel (t_root t) q h)"

subsection \<open>Construction\<close>

text \<open>
  Modelled from the spec: the constructor of \<open>SpatialIndex\<close> is not among the sources. An
  index may be paired with a separate static index; the constructor records the static
  index and registers the new index as the dynamic index of the static one. \<open>this\<close> is the
  address of the new tree.
\<close>

definition BBTree_new :: "ref \<Rightarrow> ref option \<Rightarrow> heap \<Rightarrow> error + heap" where
  "BBTree_new this staticIndex h =
     (let h0 = h\<lparr>h_trees := (h_trees h)(this \<mapsto>
                 \<lparr>t_staticIndex = staticIndex, t_dynamicIndex = None, t_count = 0,
                  t_velocityFunc = None, t_leaves = [], t_root = None,
                  t_pooledNodes = None, t_pooledPairs = None, t_stamp = 0\<rparr>)\<rparr>
      in case staticIndex of
           None \<Rightarrow> Inr h0
         | Some st \<Rightarrow> bindE (tree_at h0 staticIndex) (\<lambda>_.
             Inr (upd_tree st (\<lambda>t. t\<lparr>t_dynamicIndex := Some this\<rparr>) h0)))"

definition empty_heap :: heap where
  "empty_heap = \<lparr>h_nodes = (\<lambda>_. None), h_pairs = (\<lambda>_. None), h_trees = (\<lambda>_. None),
     h_shapes = (\<lambda>_. None), h_numNodes = 0, h_numLeaves = 0, h_numPairs = 0,
     h_calls = [], h_log = []\<rparr>"

subsection \<open>Segment queries\<close>

text \<open>
  The slab test works with \<open>Infinity\<close> and \<open>-Infinity\<close>; the fractions are therefore real
  numbers extended by the two infinities, ordered as the numbers of the program are.
\<close>

datatype xreal = MInf | Fin real | PInf

fun xle :: "xreal \<Rightarrow> xreal \<Rightarrow> bool" where
  "xle MInf y = True"
| "xle (Fin x) MInf = False"
| "xle (Fin x) (Fin y) = (x \<le> y)"
| "xle (Fin x) PInf = True"
| "xle PInf PInf = True"
| "xle PInf y = False"

instantiation xreal :: linorder
begin

definition less_eq_xreal :: "xreal \<Rightarrow> xreal \<Rightarrow> bool" where
  "less_eq_xreal x y = xle x y"

definition less_xreal :: "xreal \<Rightarrow> xreal \<Rightarrow> bool" where
  "less_xreal x y = (xle x y \<and> \<not> xle y x)"

instance
proof
  fix x y z :: xreal
  show "(x < y) = (x \<le> y \<and> \<not> y \<le> x)"
    by (simp add: less_xreal_def less_eq_xreal_def)
  show "x \<le> x"
    by (cases x) (simp_all add: less_eq_xreal_def)
  show "x \<le> y \<Longrightarrow> y \<le> z \<Longrightarrow> x \<le> z"
    by (cases x; cases y; cases z) (simp_all add: less_eq_xreal_def)
  show "x \<le> y \<Longrightarrow> y \<le> x \<Longrightarrow> x = y"
    by (cases x; cases y) (simp_all add: less_eq_xreal_def)
  show "x \<le> y \<or> y \<le> x"
    by (cases x; cases y) (auto simp: less_eq_xreal_def)
qed

end

text \<open>
  The product of a number with an extended number. In the program \<open>0 * Infinity\<close> is NaN;
  \<open>nodeSegmentQuery\<close> never forms it, since it replaces the product by an infinity when the
  first factor is \<open>0\<close>. (The value given here for that case is never used.)
\<close>

fun xtimes :: "real \<Rightarrow> xreal \<Rightarrow> xreal" where
  "xtimes d (Fin i) = Fin (d * i)"
| "xtimes d PInf = (if 0 < d then PInf else MInf)"
| "xtimes d MInf = (if 0 < d then MInf else PInf)"

text \<open>\<open>1 / (b.x - a.x)\<close>: the difference of two equal numbers is \<open>+0\<close>, and \<open>1 / +0\<close> is \<open>Infinity\<close>.\<close>

definition xinverse :: "real \<Rightarrow> xreal" where
  "xinverse d = (if d = 0 then PInf else Fin (1 / d))"

definition nodeSegmentQuery :: "tnode \<Rightarrow> vect \<Rightarrow> vect \<Rightarrow> xreal" where
  "nodeSegmentQuery node a b =
     (let idx = xinverse (vx b - vx a);
          tx1 = (if n_bb_l node = vx a then MInf else xtimes (n_bb_l node - vx a) idx);
          tx2 = (if n_bb_r node = vx a then PInf else xtimes (n_bb_r node - vx a) idx);
          txmin = min tx1 tx2;
          txmax = max tx1 tx2;
          idy = xinverse (vy b - vy a);
          ty1 = (if n_bb_b node = vy a then MInf else xtimes (n_bb_b node - vy a) idy);
          ty2 = (if n_bb_t node = vy a then PInf else xtimes (n_bb_t node - vy a) idy);
          tymin = min ty1 ty2;
          tymax = max ty1 ty2
      in if tymin \<le> txmax \<and> txmin \<le> tymax
         then (let tmin = max txmin tymin; tmax = min txmax tymax
               in if Fin 0 \<le> tmax \<and> tmin \<le> Fin 1 then max tmin (Fin 0) else PInf)
         else PInf)"

text \<open>
  The callback of a segment query returns the hit fraction of a shape. The result is the
  returned fraction together with the leaves on whose shapes the callback was invoked, in
  the order of the calls.
\<close>

fun subtreeSegmentQuery :: "nat \<Rightarrow> ref option \<Rightarrow> vect \<Rightarrow> vect \<Rightarrow> xreal \<Rightarrow> (ref option \<Rightarrow> xreal)
    \<Rightarrow> heap \<Rightarrow> error + xreal \<times> ref list" where
  "subtreeSegmentQuery 0 subtree a b t_exit func h = Inl OutOfFuel"
| "subtreeSegmentQuery (Suc fuel) subtree a b t_exit func h =
     bindE (node_at h subtree) (\<lambda>n.
       if n_isLeaf n then Inr (func (n_obj n), [the subtree])
       else
         bindE (node_at h (n_A n)) (\<lambda>na.
         bindE (node_at h (n_B n)) (\<lambda>nb.
           let t_a = nodeSegmentQuery na a b;
               t_b = nodeSegmentQuery nb a b
           in
           if t_a < t_b then
             bindE (if t_a < t_exit
                    then bindE (subtreeSegmentQuery fuel (n_A n) a b t_exit func h) (\<lambda>(t, c).
                           Inr (min t_exit t, c))
                    else Inr (t_exit, [])) (\<lambda>(t1, c1).
             bindE (if t_b < t1
                    then bindE (subtreeSegmentQuery fuel (n_B n) a b t1 func h) (\<lambda>(t, c).
                           Inr (min t1 t, c))
                    else Inr (t1, [])) (\<lambda>(t2, c2).
               Inr (t2, c1 @ c2)))
           else
             bindE (if t_b < t_exit
                    then bindE (subtreeSegmentQuery fuel (n_B n) a b t_exit func h) (\<lambda>(t, c).
                           Inr (min t_exit t, c))
                    else Inr (t_exit, [])) (\<lambda>(t1, c1).
             bindE (if t_a < t1
                    then bindE (subtreeSegmentQuery fuel (n_A n) a b t1 func h) (\<lambda>(t, c).
                           Inr (min t1 t, c))
                    else Inr (t1, [])) (\<lambda>(t2, c2).
               Inr (t2, c1 @ c2))))))"

text \<open>
  Three notions to state what a traversal does: the hit fraction the callback returns for
  the shape of a leaf, the exit fraction after a list of calls (the minimum of the
  initial one and the hit fractions), and the entry fraction of the box of a node.
\<close>

definition hit_of :: "(ref option \<Rightarrow> xreal) \<Rightarrow> heap \<Rightarrow> ref \<Rightarrow> xreal" where
  "hit_of func h l = (case h_nodes h l of Some n \<Rightarrow> func (n_obj n) | None \<Rightarrow> PInf)"


definition entry_of :: "heap \<Rightarrow> vect \<Rightarrow> vect \<Rightarrow> ref \<Rightarrow> xreal" where
  "entry_of h a b l = (case h_nodes h l of Some n \<Rightarrow> nodeSegmentQuery n a b | None \<Rightarrow> PInf)"

text \<open>\<open>segmentQuery\<close> of the tree returns nothing: what it does is the calls of the callback.\<close>

definition segmentQuery :: "nat \<Rightarrow> ref \<Rightarrow> vect \<Rightarrow> vect \<Rightarrow> xreal \<Rightarrow> (ref option \<Rightarrow> xreal) \<Rightarrow> heap
    \<Rightarrow> error + ref list" where
  "segmentQuery fuel tr a b t_exit func h =
     bindE (tree_at h (Some tr)) (\<lambda>t.
       case t_root t of
         None \<Rightarrow> Inr []
       | Some _ \<Rightarrow> bindE (subtreeSegmentQuery fuel (t_root t) a b t_exit func h) (\<lambda>(_, c). Inr c))"

subsection \<open>Example worlds\<close>

text \<open>
  Three shapes with the same unit box, a fourth one three units to the right and a fifth
  one inside the unit box; a static
  index at address \<open>0\<close> paired with a dynamic index at address \<open>1\<close>.
\<close>

definition example_box :: "nat \<Rightarrow> shape" where
  "example_box k = \<lparr>s_hashid = k, s_bb_l = 0, s_bb_b = 0, s_bb_r = 1, s_bb_t = 1\<rparr>"

definition example_world :: heap where
  "example_world = empty_heap\<lparr>h_shapes := (\<lambda>_. None)(0 \<mapsto> example_box 0, 1 \<mapsto> example_box 1,
     2 \<mapsto> example_box 2,
     3 \<mapsto> \<lparr>s_hashid = 3, s_bb_l = 3, s_bb_b = 0, s_bb_r = 4, s_bb_t = 1\<rparr>,
     4 \<mapsto> \<lparr>s_hashid = 4, s_bb_l = 3 / 10, s_bb_b = 0, s_bb_r = 2 / 5, s_bb_t = 1\<rparr>)\<rparr>"

definition example_trees :: "error + heap" where
  "example_trees = bindE (BBTree_new 0 None example_world) (\<lambda>h. BBTree_new 1 (Some 0) h)"

text \<open>
  Shape \<open>0\<close> goes into the static index, then shape \<open>1\<close> into the dynamic index, then the
  dynamic index is reindexed with a callback; and the same with the two insertions in the
  other order.
\<close>

definition example_static_first :: "error + heap" where
  "example_static_first =
     bindE example_trees (\<lambda>h.
     bindE (insert_shape 5 0 0 h) (\<lambda>h.
     bindE (insert_shape 5 1 1 h) (\<lambda>h.
       reindexQuery 5 1 True h)))"

definition example_dynamic_first :: "error + heap" where
  "example_dynamic_first =
     bindE example_trees (\<lambda>h.
     bindE (insert_shape 5 1 1 h) (\<lambda>h.
     bindE (insert_shape 5 0 0 h) (\<lambda>h.
       reindexQuery 5 1 True h)))"


text \<open>Shape \<open>1\<close> alone is inserted into the dynamic index.\<close>

definition example_one :: "error + heap" where
  "example_one = bindE example_trees (\<lambda>h. insert_shape 5 1 1 h)"



text \<open>
  Shape \<open>1\<close> and the shape inside its box are inserted into the dynamic index. A segment
  query starts on the right edge of the unit box and runs to the left; its callback
  reports a hit at \<open>0\<close> for shape \<open>1\<close> and at \<open>1/10\<close> for any other shape.
\<close>

definition example_inside :: "error + heap" where
  "example_inside = bindE example_one (\<lambda>h. insert_shape 5 1 4 h)"

definition example_edge_hit :: "ref option \<Rightarrow> xreal" where
  "example_edge_hit obj = (if obj = Some 1 then Fin 0 else Fin (1 / 10))"




section \<open>The shape of a tree in the store\<close>

text \<open>
  To state what the operations keep true, the part of the store that is reachable from the
  root of a tree is described by a term: a leaf at an address, or a node at an address
  with two subtrees.
\<close>

datatype atree = ALeaf ref | ANode ref atree atree

fun aroot :: "atree \<Rightarrow> ref" where
  "aroot (ALeaf r) = r"
| "aroot (ANode r a b) = r"

fun arefs :: "atree \<Rightarrow> ref list" where
  "arefs (ALeaf r) = [r]"
| "arefs (ANode r a b) = r # arefs a @ arefs b"

fun aleaves :: "atree \<Rightarrow> ref list" where
  "aleaves (ALeaf r) = [r]"
| "aleaves (ANode r a b) = aleaves a @ aleaves b"


definition orefs :: "atree option \<Rightarrow> ref list" where
  "orefs ot = (case ot of None \<Rightarrow> [] | Some t \<Rightarrow> arefs t)"

definition oleaves :: "atree option \<Rightarrow> ref list" where
  "oleaves ot = (case ot of None \<Rightarrow> [] | Some t \<Rightarrow> aleaves t)"

text \<open>The box of the object at an address, and the union of two boxes.\<close>

definition box_at :: "heap \<Rightarrow> ref \<Rightarrow> real \<times> real \<times> real \<times> real" where
  "box_at h r = (case h_nodes h r of
       Some n \<Rightarrow> (n_bb_l n, n_bb_b n, n_bb_r n, n_bb_t n)
     | None \<Rightarrow> (0, 0, 0, 0))"

fun box_union :: "real \<times> real \<times> real \<times> real \<Rightarrow> real \<times> real \<times> real \<times> real
    \<Rightarrow> real \<times> real \<times> real \<times> real" where
  "box_union (l1, b1, r1, t1) (l2, b2, r2, t2) = (min l1 l2, min b1 b2, max r1 r2, max t1 t2)"

text \<open>What the object at an address says of its class, its parent and its two children.\<close>

definition leaf_at :: "heap \<Rightarrow> ref \<Rightarrow> bool option" where
  "leaf_at h r = map_option n_isLeaf (h_nodes h r)"

definition parent_at :: "heap \<Rightarrow> ref \<Rightarrow> ref option option" where
  "parent_at h r = map_option n_parent (h_nodes h r)"

definition kids_at :: "heap \<Rightarrow> ref \<Rightarrow> (ref option \<times> ref option) option" where
  "kids_at h r = map_option (\<lambda>n. (n_A n, n_B n)) (h_nodes h r)"

definition obj_at :: "heap \<Rightarrow> ref \<Rightarrow> ref option option" where
  "obj_at h r = map_option n_obj (h_nodes h r)"

text \<open>The object at an address reads the same in two stores, its stamp and pairs apart.\<close>

definition same_at :: "heap \<Rightarrow> heap \<Rightarrow> ref \<Rightarrow> bool" where
  "same_at h h' r =
     (leaf_at h' r = leaf_at h r \<and> parent_at h' r = parent_at h r \<and>
      kids_at h' r = kids_at h r \<and> box_at h' r = box_at h r \<and> obj_at h' r = obj_at h r)"

text \<open>The next address for a new object.\<close>

definition next_ref :: "heap \<Rightarrow> ref" where
  "next_ref h = h_numNodes h + h_numLeaves h"

text \<open>
  The store holds the tree \<open>t\<close>: every address of \<open>t\<close> holds an object of the right class,
  a node refers to the roots of its two subtrees, and these refer back to it as their
  parent. The parent of the root of \<open>t\<close> is left open.
\<close>

fun shaped :: "heap \<Rightarrow> atree \<Rightarrow> bool" where
  "shaped h (ALeaf r) = (leaf_at h r = Some True)"
| "shaped h (ANode r a b) =
     (leaf_at h r = Some False \<and> kids_at h r = Some (Some (aroot a), Some (aroot b)) \<and>
      parent_at h (aroot a) = Some (Some r) \<and> parent_at h (aroot b) = Some (Some r) \<and>
      shaped h a \<and> shaped h b)"

text \<open>The box of every node of \<open>t\<close> is the union of the boxes of its two children.\<close>

fun exact_boxes :: "heap \<Rightarrow> atree \<Rightarrow> bool" where
  "exact_boxes h (ALeaf r) = True"
| "exact_boxes h (ANode r a b) =
     (box_at h r = box_union (box_at h (aroot a)) (box_at h (aroot b)) \<and>
      exact_boxes h a \<and> exact_boxes h b)"

text \<open>The same, except for the nodes that have the address \<open>x\<close> in their subtree.\<close>

fun exact_off :: "heap \<Rightarrow> ref \<Rightarrow> atree \<Rightarrow> bool" where
  "exact_off h x (ALeaf r) = True"
| "exact_off h x (ANode r a b) =
     ((x \<in> set (arefs (ANode r a b)) \<or>
        box_at h r = box_union (box_at h (aroot a)) (box_at h (aroot b))) \<and>
      exact_off h x a \<and> exact_off h x b)"

text \<open>The pool of nodes: a list linked through the \<open>parent\<close> field, of objects of class \<open>Node\<close>.\<close>

fun pool_chain :: "heap \<Rightarrow> ref option \<Rightarrow> ref list \<Rightarrow> bool" where
  "pool_chain h None [] = True"
| "pool_chain h (Some r) (x # xs) =
     (r = x \<and> leaf_at h x = Some False \<and>
      (case parent_at h x of Some q \<Rightarrow> pool_chain h q xs | None \<Rightarrow> False))"
| "pool_chain h None (x # xs) = False"
| "pool_chain h (Some r) [] = False"

text \<open>
  The nodes of a tree are in order: the store holds the tree \<open>ot\<close> (\<open>None\<close> for the empty
  tree) with exact boxes and a root without parent, the pool is the list \<open>ps\<close>, no address
  occurs twice in the tree and the pool, and all of them were allocated.
\<close>

definition nodes_ok :: "heap \<Rightarrow> ref \<Rightarrow> atree option \<Rightarrow> ref list \<Rightarrow> bool" where
  "nodes_ok h tr ot ps =
     (case h_trees h tr of
        None \<Rightarrow> False
      | Some T \<Rightarrow>
          (case ot of
             None \<Rightarrow> True
           | Some t \<Rightarrow> shaped h t \<and> parent_at h (aroot t) = Some None \<and> exact_boxes h t) \<and>
          pool_chain h (t_pooledNodes T) ps \<and>
          distinct (orefs ot @ ps) \<and>
          (\<forall>r \<in> set (orefs ot @ ps). r < next_ref h))"

text \<open>
  The invariant of a tree: its nodes are in order, \<open>root\<close> is the root of \<open>ot\<close>, and every
  leaf recorded in \<open>leaves\<close> is a leaf of \<open>ot\<close>, recorded once. As no address occurs twice in
  \<open>ot\<close>, such a leaf is at exactly one position.
\<close>

definition tree_ok :: "heap \<Rightarrow> ref \<Rightarrow> atree option \<Rightarrow> ref list \<Rightarrow> bool" where
  "tree_ok h tr ot ps =
     (nodes_ok h tr ot ps \<and>
      (case h_trees h tr of
         None \<Rightarrow> False
       | Some T \<Rightarrow>
           t_root T = map_option aroot ot \<and>
           set (map snd (t_leaves T)) \<subseteq> set (oleaves ot) \<and>
           distinct (map snd (t_leaves T))))"

text \<open>
  What the operations on pairs and stamps leave alone: the objects without their \<open>stamp\<close>
  and \<open>pairs\<close>, the trees without \<open>pooledPairs\<close> and \<open>stamp\<close>, the counters of nodes and
  leaves, and the shapes.
\<close>

definition skel :: "heap \<Rightarrow> (ref \<Rightarrow> tnode option) \<times> (ref \<Rightarrow> bbtree option) \<times> nat \<times> nat \<times>
    (ref \<Rightarrow> shape option)" where
  "skel h =
     (\<lambda>r. map_option (\<lambda>n. n\<lparr>n_stamp := 0, n_pairs := None\<rparr>) (h_nodes h r),
      \<lambda>r. map_option (\<lambda>t. t\<lparr>t_pooledPairs := None, t_stamp := 0\<rparr>) (h_trees h r),
      h_numNodes h, h_numLeaves h, h_shapes h)"

subsection \<open>What insertion and removal do to the shape\<close>

text \<open>
  Removing the leaf \<open>l\<close> from a tree: the node above \<open>l\<close> goes away and the sibling of \<open>l\<close>
  takes its place. \<open>None\<close> is the empty tree.
\<close>

fun arem :: "ref \<Rightarrow> atree \<Rightarrow> atree option" where
  "arem l (ALeaf r) = (if r = l then None else Some (ALeaf r))"
| "arem l (ANode r a b) =
     (case arem l a of
        None \<Rightarrow> Some b
      | Some a' \<Rightarrow> (case arem l b of None \<Rightarrow> Some a | Some b' \<Rightarrow> Some (ANode r a' b')))"

text \<open>The node that \<open>makeNode\<close> returns: the head of the pool, or else a new object.\<close>

definition new_node :: "heap \<Rightarrow> ref list \<Rightarrow> ref" where
  "new_node h ps = (case ps of [] \<Rightarrow> next_ref h | x # xs \<Rightarrow> x)"

text \<open>
  The store \<open>h'\<close> and the tree \<open>t'\<close> after the leaf \<open>l\<close> was inserted into the tree \<open>t\<close> of the
  store \<open>h\<close>, with the pool \<open>ps\<close> of the index \<open>tr\<close>: \<open>t'\<close> is \<open>t\<close> with \<open>l\<close> and one node more,
  its boxes are exact, the box of its root is the union of the old one and the box of
  \<open>l\<close>, the pool lost its head, and nothing else changed.
\<close>

definition ins_post :: "heap \<Rightarrow> ref \<Rightarrow> bbtree \<Rightarrow> atree \<Rightarrow> ref list \<Rightarrow> ref \<Rightarrow> heap \<Rightarrow> atree \<Rightarrow> bool" where
  "ins_post h tr T t ps l h' t' =
     (shaped h' t' \<and> exact_boxes h' t' \<and> distinct (arefs t') \<and>
      set (arefs t') = insert (new_node h ps) (insert l (set (arefs t))) \<and>
      set (aleaves t') = insert l (set (aleaves t)) \<and>
      arem l t' = Some t \<and>
      box_at h' (aroot t') = box_union (box_at h (aroot t)) (box_at h l) \<and>
      (if aroot t' = aroot t then parent_at h' (aroot t') = parent_at h (aroot t)
       else aroot t' = new_node h ps \<and> parent_at h' (aroot t') = Some None) \<and>
      next_ref h' = next_ref h + (if ps = [] then 1 else 0) \<and>
      (case h_trees h' tr of
         None \<Rightarrow> False
       | Some T' \<Rightarrow> h_trees h' = (h_trees h)(tr \<mapsto> T\<lparr>t_pooledNodes := t_pooledNodes T'\<rparr>) \<and>
           pool_chain h' (t_pooledNodes T') (tl ps)) \<and>
      (\<forall>r. r \<notin> set (arefs t') \<longrightarrow> same_at h h' r) \<and>
      (\<forall>r \<in> set (aleaves t').
         leaf_at h' r = Some True \<and> box_at h' r = box_at h r \<and> obj_at h' r = obj_at h r))"

subsection \<open>The pairs of a leaf\<close>

text \<open>
  A pair is on the lists of its two leaves. Seen from the leaf \<open>this\<close>, \<open>this_next\<close> is the
  next pair on the list of \<open>this\<close>, and \<open>other_side\<close> is what \<open>clearPairs\<close> hands to
  \<open>unlinkThread\<close>: the previous pair, the leaf and the next pair on the list of the other
  leaf.
\<close>

definition this_next :: "ref \<Rightarrow> pair \<Rightarrow> ref option" where
  "this_next this p = (if p_leafA p = Some this then p_nextA p else p_nextB p)"

definition other_side :: "ref \<Rightarrow> pair \<Rightarrow> ref option \<times> ref option \<times> ref option" where
  "other_side this p =
     (if p_leafA p = Some this then (p_prevB p, p_leafB p, p_nextB p)
      else (p_prevA p, p_leafA p, p_nextA p))"

text \<open>The list of pairs of the leaf \<open>this\<close> from the pair \<open>pr\<close> on is \<open>xs\<close>.\<close>

fun leaf_thread :: "heap \<Rightarrow> ref \<Rightarrow> ref option \<Rightarrow> ref list \<Rightarrow> bool" where
  "leaf_thread h this None [] = True"
| "leaf_thread h this (Some r) (x # xs) =
     (r = x \<and> (case h_pairs h x of
                  Some p \<Rightarrow> leaf_thread h this (this_next this p) xs
                | None \<Rightarrow> False))"
| "leaf_thread h this None (x # xs) = False"
| "leaf_thread h this (Some r) [] = False"

text \<open>The pool of pairs: a list linked through the \<open>prevA\<close> field.\<close>

fun pair_pool :: "heap \<Rightarrow> ref option \<Rightarrow> ref list \<Rightarrow> bool" where
  "pair_pool h None [] = True"
| "pair_pool h (Some r) (x # xs) =
     (r = x \<and> (case h_pairs h x of Some p \<Rightarrow> pair_pool h (p_prevA p) xs | None \<Rightarrow> False))"
| "pair_pool h None (x # xs) = False"
| "pair_pool h (Some r) [] = False"

text \<open>
  The pairs \<open>xs\<close> of the leaf \<open>this\<close> lie apart: each of them joins \<open>this\<close> to another leaf,
  and its neighbours on the list of that leaf exist and are neither among \<open>xs\<close> nor in the
  pool \<open>ps\<close>; where it is the first pair of that leaf, the leaf exists.
\<close>

definition pairs_apart :: "heap \<Rightarrow> ref \<Rightarrow> ref list \<Rightarrow> ref list \<Rightarrow> bool" where
  "pairs_apart h this xs ps =
     (\<forall>x \<in> set xs.
        case h_pairs h x of
          None \<Rightarrow> False
        | Some p \<Rightarrow>
            (case other_side this p of (prev, other, nxt) \<Rightarrow>
               other \<noteq> Some this \<and>
               (case prev of
                  Some q \<Rightarrow> q \<notin> set xs \<and> q \<notin> set ps \<and> h_pairs h q \<noteq> None
                | None \<Rightarrow> (case other of Some ol \<Rightarrow> h_nodes h ol \<noteq> None | None \<Rightarrow> False)) \<and>
               (case nxt of
                  Some q \<Rightarrow> q \<notin> set xs \<and> q \<notin> set ps \<and> h_pairs h q \<noteq> None
                | None \<Rightarrow> True)))"
section \<open>Properties of the constraints\<close>

subsection \<open>Clamping\<close>





lemma ratchet_clamp_pos:
  assumes "0 < r"
  shows "clamp (x * r) 0 (m * \<bar>r\<bar>) / r = clamp x 0 m"
proof -
  have "max (x * r) 0 = max x 0 * r"
    using assms by (simp add: max_def mult_le_0_iff zero_le_mult_iff not_le)
  moreover have "min (max x 0 * r) (m * r) = min (max x 0) m * r"
    using assms by (simp add: min_def)
  ultimately show ?thesis using assms by (simp add: clamp_def)
qed

lemma ratchet_clamp_neg:
  assumes r: "r < 0" and m: "0 \<le> m"
  shows "clamp (x * r) 0 (m * \<bar>r\<bar>) / r = clamp x (- m) 0"
proof -
  have ar: "\<bar>r\<bar> = - r" using r by simp
  consider "0 < x" | "- m \<le> x \<and> x \<le> 0" | "x < - m" by linarith
  then show ?thesis
  proof cases
    case 1
    then have "x * r < 0" using r by (simp add: mult_pos_neg)
    moreover have "0 \<le> m * - r" using r m by (simp add: mult_nonneg_nonpos)
    ultimately have "clamp (x * r) 0 (m * \<bar>r\<bar>) = 0"
      unfolding ar by (simp add: clamp_def min_def max_def)
    moreover have "clamp x (- m) 0 = 0" using 1 m by (simp add: clamp_def min_def max_def)
    ultimately show ?thesis by simp
  next
    case 2
    then have a: "0 \<le> x * r" using r by (simp add: mult_nonpos_nonpos)
    have "x * r \<le> (- m) * r" using 2 r by (intro mult_right_mono_neg) simp_all
    then have b: "x * r \<le> m * - r" by simp
    have "clamp (x * r) 0 (m * \<bar>r\<bar>) = x * r"
      unfolding ar using a b by (simp add: clamp_def min_def max_def)
    moreover have "clamp x (- m) 0 = x" using 2 by (simp add: clamp_def min_def max_def)
    ultimately show ?thesis using r by simp
  next
    case 3
    then have "(- m) * r < x * r" using r by (intro mult_strict_right_mono_neg) simp_all
    then have b: "m * - r < x * r" by simp
    have c: "0 \<le> m * - r" using r m by (simp add: mult_nonneg_nonpos)
    have "clamp (x * r) 0 (m * \<bar>r\<bar>) = m * - r"
      unfolding ar using b c by (simp add: clamp_def min_def max_def)
    moreover have "clamp x (- m) 0 = - m" using 3 m by (simp add: clamp_def min_def max_def)
    ultimately show ?thesis using r by simp
  qed
qed

subsection \<open>The reset of the limit joints\<close>

lemma rlimit_preStep_bias_zero:
  "rlimit_bias (rlimit_preStep bc dt j a b) = 0 \<Longrightarrow> rlimit_jAcc (rlimit_preStep bc dt j a b) = 0"
  by (simp add: rlimit_preStep_def Let_def split: if_splits)

lemma ratchet_preStep_bias_zero:
  "ratchet_bias (ratchet_preStep bc dt j a b) = 0 \<Longrightarrow> ratchet_jAcc (ratchet_preStep bc dt j a b) = 0"
  by (simp add: ratchet_preStep_def Let_def split: if_splits)

text \<open>
  C7. For the limit-style joints (RotaryLimitJoint and RatchetJoint), whenever \<open>preStep\<close>
  computes a bias that is exactly zero, the joint it leaves has its accumulated impulse
  \<open>jAcc\<close> reset to zero.
\<close>

theorem limit_joint_preStep_resets:
  "(rlimit_bias (rlimit_preStep bc dt rj a b) = 0 \<longrightarrow> rlimit_jAcc (rlimit_preStep bc dt rj a b) = 0) \<and>
   (ratchet_bias (ratchet_preStep bc dt tj a b) = 0 \<longrightarrow> ratchet_jAcc (ratchet_preStep bc dt tj a b) = 0)"
  using rlimit_preStep_bias_zero ratchet_preStep_bias_zero by blast

theorem limit_joint_preStep_resets_witness:
  "rlimit_jAcc example_rlimit = 5 \<and>
   rlimit_bias (rlimit_preStep example_bc 1 example_rlimit (example_body 0 0) (example_body 0 0)) = 0 \<and>
   rlimit_jAcc (rlimit_preStep example_bc 1 example_rlimit (example_body 0 0) (example_body 0 0)) = 0 \<and>
   ratchet_jAcc example_ratchet = 5 \<and>
   ratchet_bias (ratchet_preStep example_bc 1 example_ratchet (example_body 0 0) (example_body 0 0)) = 0 \<and>
   ratchet_jAcc (ratchet_preStep example_bc 1 example_ratchet (example_body 0 0) (example_body 0 0)) = 0"
proof -
  have r: "rlimit_bias (rlimit_preStep example_bc 1 example_rlimit (example_body 0 0) (example_body 0 0)) = 0"
    by (simp add: rlimit_preStep_def example_rlimit_def example_body_def example_bc_def clamp_def)
  have t: "ratchet_bias (ratchet_preStep example_bc 1 example_ratchet (example_body 0 0) (example_body 0 0)) = 0"
    by (simp add: ratchet_preStep_def example_ratchet_def example_body_def example_bc_def clamp_def)
  show ?thesis
    using r t limit_joint_preStep_resets [of example_bc 1 example_rlimit "example_body 0 0" "example_body 0 0" example_ratchet]
    by (simp add: example_rlimit_def example_ratchet_def)
qed

text \<open>
  C10. For RatchetJoint and RotaryLimitJoint, when the bias is zero (in particular when the
  preceding \<open>preStep\<close> computed a zero bias), \<open>applyImpulse\<close> returns the joint and both
  bodies exactly as it received them, so every later call does too.
\<close>

theorem limit_joint_applyImpulse_noop:
  "(rlimit_bias rj = 0 \<longrightarrow> rlimit_applyImpulse rj a b = (rj, a, b)) \<and>
   (ratchet_bias tj = 0 \<longrightarrow> ratchet_applyImpulse tj a b = (tj, a, b)) \<and>
   (rlimit_bias (rlimit_preStep bc dt rj a b) = 0 \<longrightarrow>
      rlimit_applyImpulse (rlimit_preStep bc dt rj a b) a' b' = (rlimit_preStep bc dt rj a b, a', b')) \<and>
   (ratchet_bias (ratchet_preStep bc dt tj a b) = 0 \<longrightarrow>
      ratchet_applyImpulse (ratchet_preStep bc dt tj a b) a' b' = (ratchet_preStep bc dt tj a b, a', b'))"
  by (simp add: rlimit_applyImpulse_def ratchet_applyImpulse_def)

theorem limit_joint_applyImpulse_noop_witness:
  "rlimit_bias (rlimit_preStep example_bc 1 example_rlimit (example_body 0 0) (example_body 0 0)) = 0 \<and>
   rlimit_applyImpulse
     (rlimit_preStep example_bc 1 example_rlimit (example_body 0 0) (example_body 0 0))
     (example_body 0 3) (example_body 0 10) =
     (rlimit_preStep example_bc 1 example_rlimit (example_body 0 0) (example_body 0 0),
      example_body 0 3, example_body 0 10) \<and>
   ratchet_bias (ratchet_preStep example_bc 1 example_ratchet (example_body 0 0) (example_body 0 0)) = 0 \<and>
   ratchet_applyImpulse
     (ratchet_preStep example_bc 1 example_ratchet (example_body 0 0) (example_body 0 0))
     (example_body 0 3) (example_body 0 10) =
     (ratchet_preStep example_bc 1 example_ratchet (example_body 0 0) (example_body 0 0),
      example_body 0 3, example_body 0 10)"
proof -
  have r: "rlimit_bias (rlimit_preStep example_bc 1 example_rlimit (example_body 0 0) (example_body 0 0)) = 0"
    by (simp add: rlimit_preStep_def example_rlimit_def example_body_def example_bc_def clamp_def)
  have t: "ratchet_bias (ratchet_preStep example_bc 1 example_ratchet (example_body 0 0) (example_body 0 0)) = 0"
    by (simp add: ratchet_preStep_def example_ratchet_def example_body_def example_bc_def clamp_def)
  note T = limit_joint_applyImpulse_noop [where bc = example_bc and dt = 1 and rj = example_rlimit
      and tj = example_ratchet and a = "example_body 0 0" and b = "example_body 0 0"
      and a' = "example_body 0 3" and b' = "example_body 0 10"]
  show ?thesis
    using r t T [THEN conjunct2, THEN conjunct2, THEN conjunct1, rule_format, OF r]
      T [THEN conjunct2, THEN conjunct2, THEN conjunct2, rule_format, OF t]
    by blast
qed

subsection \<open>The bound on the accumulated impulse\<close>








subsection \<open>The impulse delta\<close>

text \<open>
  C2, as stated, fails for the rotary limit joint (and the ratchet joint): the source forms
  \<open>-(bias + wr) * iSum\<close> there, not \<open>(bias - wr) * iSum\<close>. At the example, the accumulated
  impulse of the source is \<open>-6\<close>, whereas the recipe of the claim gives \<open>-4\<close>, \<open>-4\<close> or \<open>0\<close>
  for the ranges \<open>[-jMax, 0]\<close>, \<open>[-jMax, jMax]\<close> and \<open>[0, jMax]\<close>.
\<close>

theorem applyImpulse_delta_counterexample:
  "rlimit_jAcc (fst (rlimit_applyImpulse example_rlimit (example_body 0 0) (example_body 0 10))) = - 6 \<and>
   spec_total (rlimit_jAcc example_rlimit)
     (spec_delta (rlimit_bias example_rlimit) (b_w (example_body 0 10) - b_w (example_body 0 0))
        (rlimit_iSum example_rlimit))
     (- rlimit_jMax example_rlimit) 0 = - 4 \<and>
   spec_total (rlimit_jAcc example_rlimit)
     (spec_delta (rlimit_bias example_rlimit) (b_w (example_body 0 10) - b_w (example_body 0 0))
        (rlimit_iSum example_rlimit))
     (- rlimit_jMax example_rlimit) (rlimit_jMax example_rlimit) = - 4 \<and>
   spec_total (rlimit_jAcc example_rlimit)
     (spec_delta (rlimit_bias example_rlimit) (b_w (example_body 0 10) - b_w (example_body 0 0))
        (rlimit_iSum example_rlimit))
     0 (rlimit_jMax example_rlimit) = 0"
  by (simp add: rlimit_applyImpulse_def example_rlimit_def example_body_def spec_total_def
        spec_delta_def clamp_def Let_def)

text \<open>
  C2, amended. GearJoint, PinJoint and GrooveJoint form the unclamped delta as
  \<open>(bias - relativeVelocity) * effectiveMass\<close> (for the groove joint the product of the
  effective mass matrix with \<open>bias - relativeVelocity\<close>); RotaryLimitJoint and RatchetJoint,
  when their bias is not zero, form it with the bias negated, as
  \<open>(-bias - relativeVelocity) * iSum\<close>, and when their bias is zero they return at once
  and change nothing. Each adds the delta to the accumulated impulse and restricts the
  new total: gear and pin clamp it to \<open>[-jMax, jMax]\<close>; rotary limit to \<open>[0, jMax]\<close> for a
  negative bias and \<open>[-jMax, 0]\<close> otherwise; ratchet (for \<open>jMax \<ge> 0\<close>, in exact arithmetic)
  to \<open>[0, jMax]\<close> for a positive \<open>ratchet\<close> and \<open>[-jMax, 0]\<close> for a negative one; the groove
  joint keeps the total as it is when \<open>clamp * cross(total, grooveTN) > 0\<close>, else replaces
  it by its projection on \<open>grooveTN\<close>, and then clamps the result to the disc of radius
  \<open>jMaxLen\<close>. Each applies to the two bodies only the difference between the new and the
  old total.
\<close>

theorem applyImpulse_delta:
  "gear_applyImpulse gj a b =
     (let total = spec_total (gear_jAcc gj)
            (spec_delta (gear_bias gj) (b_w b * gear_ratio gj - b_w a) (gear_iSum gj))
            (- gear_jMax gj) (gear_jMax gj)
      in (gj\<lparr>gear_jAcc := total\<rparr>,
          a\<lparr>b_w := b_w a - (total - gear_jAcc gj) * b_i_inv a * gear_ratio_inv gj\<rparr>,
          b\<lparr>b_w := b_w b + (total - gear_jAcc gj) * b_i_inv b\<rparr>)) \<and>
   (pin_r1 pj = Some rA \<longrightarrow> pin_r2 pj = Some rB \<longrightarrow> pin_n pj = Some n \<longrightarrow>
      pin_applyImpulse pj a b =
        (let total = spec_total (pin_jnAcc pj)
               (spec_delta (pin_bias pj) (normal_relative_velocity a b rA rB n) (pin_nMass pj))
               (- pin_jnMax pj) (pin_jnMax pj)
         in Inr (pj\<lparr>pin_jnAcc := total\<rparr>,
                 apply_impulses a b rA rB (vx n * (total - pin_jnAcc pj))
                   (vy n * (total - pin_jnAcc pj))))) \<and>
   (groove_r1 vj = Some rA \<longrightarrow> groove_r2 vj = Some rB \<longrightarrow> groove_bias vj = Some vbias \<longrightarrow>
    groove_grooveTN vj = Some n \<longrightarrow>
      groove_applyImpulse vj a b =
        (let sum = vadd (groove_jAcc vj)
               (multK (vsub vbias (relative_velocity a b rA rB)) (groove_k1 vj) (groove_k2 vj));
             total = vclamp (if groove_clamp vj * vcross sum n > 0 then sum else vproject sum n)
               (groove_jMaxLen vj)
         in Inr (vj\<lparr>groove_jAcc := total\<rparr>,
                 apply_impulses a b rA rB (vx total - vx (groove_jAcc vj))
                   (vy total - vy (groove_jAcc vj))))) \<and>
   (rlimit_bias rj \<noteq> 0 \<longrightarrow>
      rlimit_applyImpulse rj a b =
        (let total = spec_total (rlimit_jAcc rj)
               (spec_delta (- rlimit_bias rj) (b_w b - b_w a) (rlimit_iSum rj))
               (if rlimit_bias rj < 0 then 0 else - rlimit_jMax rj)
               (if rlimit_bias rj < 0 then rlimit_jMax rj else 0)
         in (rj\<lparr>rlimit_jAcc := total\<rparr>,
             a\<lparr>b_w := b_w a - (total - rlimit_jAcc rj) * b_i_inv a\<rparr>,
             b\<lparr>b_w := b_w b + (total - rlimit_jAcc rj) * b_i_inv b\<rparr>))) \<and>
   (ratchet_bias tj \<noteq> 0 \<longrightarrow> ratchet_ratchet tj \<noteq> 0 \<longrightarrow> 0 \<le> ratchet_jMax tj \<longrightarrow>
      ratchet_applyImpulse tj a b =
        (let total = spec_total (ratchet_jAcc tj)
               (spec_delta (- ratchet_bias tj) (b_w b - b_w a) (ratchet_iSum tj))
               (if 0 < ratchet_ratchet tj then 0 else - ratchet_jMax tj)
               (if 0 < ratchet_ratchet tj then ratchet_jMax tj else 0)
         in (tj\<lparr>ratchet_jAcc := total\<rparr>,
             a\<lparr>b_w := b_w a - (total - ratchet_jAcc tj) * b_i_inv a\<rparr>,
             b\<lparr>b_w := b_w b + (total - ratchet_jAcc tj) * b_i_inv b\<rparr>))) \<and>
   (rlimit_bias rj = 0 \<longrightarrow> rlimit_applyImpulse rj a b = (rj, a, b)) \<and>
   (ratchet_bias tj = 0 \<longrightarrow> ratchet_applyImpulse tj a b = (tj, a, b))"
proof -
  have idle: "rlimit_bias rj = 0 \<longrightarrow> rlimit_applyImpulse rj a b = (rj, a, b)"
    "ratchet_bias tj = 0 \<longrightarrow> ratchet_applyImpulse tj a b = (tj, a, b)"
    by (simp_all add: rlimit_applyImpulse_def ratchet_applyImpulse_def)
  have gear: "gear_applyImpulse gj a b =
     (let total = spec_total (gear_jAcc gj)
            (spec_delta (gear_bias gj) (b_w b * gear_ratio gj - b_w a) (gear_iSum gj))
            (- gear_jMax gj) (gear_jMax gj)
      in (gj\<lparr>gear_jAcc := total\<rparr>,
          a\<lparr>b_w := b_w a - (total - gear_jAcc gj) * b_i_inv a * gear_ratio_inv gj\<rparr>,
          b\<lparr>b_w := b_w b + (total - gear_jAcc gj) * b_i_inv b\<rparr>))"
    by (simp add: gear_applyImpulse_def spec_total_def spec_delta_def Let_def)
  have pin: "pin_applyImpulse pj a b =
        (let total = spec_total (pin_jnAcc pj)
               (spec_delta (pin_bias pj) (normal_relative_velocity a b rA rB n) (pin_nMass pj))
               (- pin_jnMax pj) (pin_jnMax pj)
         in Inr (pj\<lparr>pin_jnAcc := total\<rparr>,
                 apply_impulses a b rA rB (vx n * (total - pin_jnAcc pj))
                   (vy n * (total - pin_jnAcc pj))))"
    if "pin_r1 pj = Some rA" "pin_r2 pj = Some rB" "pin_n pj = Some n"
    using that
    by (simp add: pin_applyImpulse_def spec_total_def spec_delta_def Let_def split: prod.splits)
  have groove: "groove_applyImpulse vj a b =
        (let sum = vadd (groove_jAcc vj)
               (multK (vsub vbias (relative_velocity a b rA rB)) (groove_k1 vj) (groove_k2 vj));
             total = vclamp (if groove_clamp vj * vcross sum n > 0 then sum else vproject sum n)
               (groove_jMaxLen vj)
         in Inr (vj\<lparr>groove_jAcc := total\<rparr>,
                 apply_impulses a b rA rB (vx total - vx (groove_jAcc vj))
                   (vy total - vy (groove_jAcc vj))))"
    if "groove_r1 vj = Some rA" "groove_r2 vj = Some rB" "groove_bias vj = Some vbias"
      "groove_grooveTN vj = Some n"
    using that
    by (simp add: groove_applyImpulse_def grooveConstrain_def Let_def split: prod.splits)
  have rlimit: "rlimit_applyImpulse rj a b =
        (let total = spec_total (rlimit_jAcc rj)
               (spec_delta (- rlimit_bias rj) (b_w b - b_w a) (rlimit_iSum rj))
               (if rlimit_bias rj < 0 then 0 else - rlimit_jMax rj)
               (if rlimit_bias rj < 0 then rlimit_jMax rj else 0)
         in (rj\<lparr>rlimit_jAcc := total\<rparr>,
             a\<lparr>b_w := b_w a - (total - rlimit_jAcc rj) * b_i_inv a\<rparr>,
             b\<lparr>b_w := b_w b + (total - rlimit_jAcc rj) * b_i_inv b\<rparr>))"
    if "rlimit_bias rj \<noteq> 0"
    using that
    by (simp add: rlimit_applyImpulse_def spec_total_def spec_delta_def Let_def algebra_simps)
  have ratchet: "ratchet_applyImpulse tj a b =
        (let total = spec_total (ratchet_jAcc tj)
               (spec_delta (- ratchet_bias tj) (b_w b - b_w a) (ratchet_iSum tj))
               (if 0 < ratchet_ratchet tj then 0 else - ratchet_jMax tj)
               (if 0 < ratchet_ratchet tj then ratchet_jMax tj else 0)
         in (tj\<lparr>ratchet_jAcc := total\<rparr>,
             a\<lparr>b_w := b_w a - (total - ratchet_jAcc tj) * b_i_inv a\<rparr>,
             b\<lparr>b_w := b_w b + (total - ratchet_jAcc tj) * b_i_inv b\<rparr>))"
    if h: "ratchet_bias tj \<noteq> 0" "ratchet_ratchet tj \<noteq> 0" "0 \<le> ratchet_jMax tj"
  proof -
    define x where "x = ratchet_jAcc tj + spec_delta (- ratchet_bias tj) (b_w b - b_w a) (ratchet_iSum tj)"
    have xc: "ratchet_jAcc tj + - (ratchet_bias tj + (b_w b - b_w a)) * ratchet_iSum tj = x"
      by (simp add: x_def spec_delta_def algebra_simps)
    have cl: "clamp (x * ratchet_ratchet tj) 0 (ratchet_jMax tj * \<bar>ratchet_ratchet tj\<bar>) / ratchet_ratchet tj
        = clamp x (if 0 < ratchet_ratchet tj then 0 else - ratchet_jMax tj)
            (if 0 < ratchet_ratchet tj then ratchet_jMax tj else 0)"
    proof (cases "0 < ratchet_ratchet tj")
      case True
      then show ?thesis using ratchet_clamp_pos [OF True] by simp
    next
      case False
      then have "ratchet_ratchet tj < 0" using h(2) by simp
      from ratchet_clamp_neg [OF this h(3)] False show ?thesis by simp
    qed
    show ?thesis
      unfolding ratchet_applyImpulse_def spec_total_def Let_def xc x_def [symmetric] cl
      using h(1) by simp
  qed
  show ?thesis
    using gear pin groove rlimit ratchet idle by blast
qed

theorem applyImpulse_delta_witness:
  "gear_applyImpulse example_gear (example_body 0 0) (example_body 0 10) =
     (example_gear\<lparr>gear_jAcc := 10\<rparr>, (example_body 0 0)\<lparr>b_w := 20\<rparr>,
      (example_body 0 10)\<lparr>b_w := - 30\<rparr>) \<and>
   pin_r1 example_pin_stepped = Some (Vect 0 0) \<and> pin_r2 example_pin_stepped = Some (Vect 0 0) \<and>
   pin_n example_pin_stepped = Some (Vect 1 0) \<and>
   pin_applyImpulse example_pin_stepped (example_body 0 0) ((example_body 0 0)\<lparr>b_v := Vect 3 0\<rparr>) =
     Inr (example_pin_stepped\<lparr>pin_jnAcc := - 1\<rparr>,
          (example_body 0 0)\<lparr>b_v := Vect 1 0\<rparr>, (example_body 0 0)\<lparr>b_v := Vect 2 0\<rparr>) \<and>
   groove_r1 example_groove_stepped = Some (Vect 0 0) \<and>
   groove_r2 example_groove_stepped = Some (Vect 0 0) \<and>
   groove_bias example_groove_stepped = Some (Vect 0 1) \<and>
   groove_grooveTN example_groove_stepped = Some (Vect 0 1) \<and>
   groove_applyImpulse example_groove_stepped (example_body 0 0) (example_body 0 0) =
     Inr (example_groove_stepped\<lparr>groove_jAcc := Vect 0 1\<rparr>,
          (example_body 0 0)\<lparr>b_v := Vect 0 (- 1)\<rparr>, (example_body 0 0)\<lparr>b_v := Vect 0 1\<rparr>) \<and>
   rlimit_bias example_rlimit \<noteq> 0 \<and>
   rlimit_applyImpulse example_rlimit (example_body 0 0) (example_body 0 10) =
     (example_rlimit\<lparr>rlimit_jAcc := - 6\<rparr>, (example_body 0 0)\<lparr>b_w := 11\<rparr>,
      (example_body 0 10)\<lparr>b_w := - 1\<rparr>) \<and>
   ratchet_bias example_ratchet \<noteq> 0 \<and> ratchet_ratchet example_ratchet \<noteq> 0 \<and>
   0 \<le> ratchet_jMax example_ratchet \<and>
   ratchet_applyImpulse example_ratchet (example_body 0 0) (example_body 0 10) =
     (example_ratchet\<lparr>ratchet_jAcc := 0\<rparr>, (example_body 0 0)\<lparr>b_w := 5\<rparr>,
      (example_body 0 10)\<lparr>b_w := 5\<rparr>) \<and>
   groove_applyImpulse (example_groove_stepped\<lparr>groove_bias := Some (Vect 1 0)\<rparr>)
       (example_body 0 0) (example_body 0 0) =
     Inr (example_groove_stepped\<lparr>groove_bias := Some (Vect 1 0)\<rparr>,
          example_body 0 0, example_body 0 0) \<and>
   rlimit_applyImpulse (example_rlimit\<lparr>rlimit_bias := 0\<rparr>) (example_body 0 0) (example_body 0 10) =
     (example_rlimit\<lparr>rlimit_bias := 0\<rparr>, example_body 0 0, example_body 0 10) \<and>
   ratchet_applyImpulse (example_ratchet\<lparr>ratchet_bias := 0\<rparr>) (example_body 0 0) (example_body 0 10) =
     (example_ratchet\<lparr>ratchet_bias := 0\<rparr>, example_body 0 0, example_body 0 10)"
proof -
  note Z = applyImpulse_delta [where rj = "example_rlimit\<lparr>rlimit_bias := 0\<rparr>"
      and tj = "example_ratchet\<lparr>ratchet_bias := 0\<rparr>" and a = "example_body 0 0"
      and b = "example_body 0 10", THEN conjunct2, THEN conjunct2, THEN conjunct2,
      THEN conjunct2, THEN conjunct2]
  have z: "rlimit_applyImpulse (example_rlimit\<lparr>rlimit_bias := 0\<rparr>) (example_body 0 0)
        (example_body 0 10) =
     (example_rlimit\<lparr>rlimit_bias := 0\<rparr>, example_body 0 0, example_body 0 10)"
    "ratchet_applyImpulse (example_ratchet\<lparr>ratchet_bias := 0\<rparr>) (example_body 0 0)
        (example_body 0 10) =
     (example_ratchet\<lparr>ratchet_bias := 0\<rparr>, example_body 0 0, example_body 0 10)"
    using Z by simp_all
  note W = applyImpulse_delta [where vj = "example_groove_stepped\<lparr>groove_bias := Some (Vect 1 0)\<rparr>"
      and a = "example_body 0 0" and b = "example_body 0 0" and rA = "Vect 0 0" and rB = "Vect 0 0"
      and n = "Vect 0 1" and vbias = "Vect 1 0", THEN conjunct2, THEN conjunct2, THEN conjunct1]
  have w: "groove_applyImpulse (example_groove_stepped\<lparr>groove_bias := Some (Vect 1 0)\<rparr>)
       (example_body 0 0) (example_body 0 0) =
     Inr (example_groove_stepped\<lparr>groove_bias := Some (Vect 1 0)\<rparr>,
          example_body 0 0, example_body 0 0)"
    using W
    by (simp add: example_groove_stepped_def example_groove_def example_body_def
          relative_velocity_def apply_impulses_def apply_impulse_def vdot_def vsub_def vadd_def
          vmult_def vperp_def multK_def vcross_def vproject_def vclamp_def Let_def)
  note T = applyImpulse_delta [where gj = example_gear and a = "example_body 0 0"
      and b = "example_body 0 10" and rj = example_rlimit and tj = example_ratchet]
  note P = applyImpulse_delta [where pj = example_pin_stepped and a = "example_body 0 0"
      and b = "(example_body 0 0)\<lparr>b_v := Vect 3 0\<rparr>" and rA = "Vect 0 0" and rB = "Vect 0 0"
      and n = "Vect 1 0", THEN conjunct2, THEN conjunct1]
  note V = applyImpulse_delta [where vj = example_groove_stepped and a = "example_body 0 0"
      and b = "example_body 0 0" and rA = "Vect 0 0" and rB = "Vect 0 0"
      and n = "Vect 0 1" and vbias = "Vect 0 1", THEN conjunct2, THEN conjunct2, THEN conjunct1]
  have g: "gear_applyImpulse example_gear (example_body 0 0) (example_body 0 10) =
     (example_gear\<lparr>gear_jAcc := 10\<rparr>, (example_body 0 0)\<lparr>b_w := 20\<rparr>,
      (example_body 0 10)\<lparr>b_w := - 30\<rparr>)"
    using T [THEN conjunct1]
    by (simp add: example_gear_def example_body_def spec_total_def spec_delta_def clamp_def)
  have ph: "pin_r1 example_pin_stepped = Some (Vect 0 0)" "pin_r2 example_pin_stepped = Some (Vect 0 0)"
    "pin_n example_pin_stepped = Some (Vect 1 0)"
    by (simp_all add: example_pin_stepped_def)
  have p: "pin_applyImpulse example_pin_stepped (example_body 0 0) ((example_body 0 0)\<lparr>b_v := Vect 3 0\<rparr>) =
     Inr (example_pin_stepped\<lparr>pin_jnAcc := - 1\<rparr>,
          (example_body 0 0)\<lparr>b_v := Vect 1 0\<rparr>, (example_body 0 0)\<lparr>b_v := Vect 2 0\<rparr>)"
    using P [rule_format, OF ph]
    by (simp add: example_pin_stepped_def example_pin_def pin_new_def example_body_def
          spec_total_def spec_delta_def clamp_def normal_relative_velocity_def
          relative_velocity_def apply_impulses_def apply_impulse_def vdot_def vsub_def vadd_def
          vmult_def vperp_def Let_def)
  have vh: "groove_r1 example_groove_stepped = Some (Vect 0 0)"
    "groove_r2 example_groove_stepped = Some (Vect 0 0)"
    "groove_bias example_groove_stepped = Some (Vect 0 1)"
    "groove_grooveTN example_groove_stepped = Some (Vect 0 1)"
    by (simp_all add: example_groove_stepped_def)
  have v: "groove_applyImpulse example_groove_stepped (example_body 0 0) (example_body 0 0) =
     Inr (example_groove_stepped\<lparr>groove_jAcc := Vect 0 1\<rparr>,
          (example_body 0 0)\<lparr>b_v := Vect 0 (- 1)\<rparr>, (example_body 0 0)\<lparr>b_v := Vect 0 1\<rparr>)"
    using V [rule_format, OF vh]
    by (simp add: example_groove_stepped_def example_groove_def example_body_def
          relative_velocity_def apply_impulses_def apply_impulse_def vdot_def vsub_def vadd_def
          vmult_def vperp_def multK_def vcross_def vproject_def vclamp_def Let_def)
  have rh: "rlimit_bias example_rlimit \<noteq> 0" by (simp add: example_rlimit_def)
  have r: "rlimit_applyImpulse example_rlimit (example_body 0 0) (example_body 0 10) =
     (example_rlimit\<lparr>rlimit_jAcc := - 6\<rparr>, (example_body 0 0)\<lparr>b_w := 11\<rparr>,
      (example_body 0 10)\<lparr>b_w := - 1\<rparr>)"
    using T [THEN conjunct2, THEN conjunct2, THEN conjunct2, THEN conjunct1, rule_format, OF rh]
    by (simp add: example_rlimit_def example_body_def spec_total_def spec_delta_def clamp_def)
  have th: "ratchet_bias example_ratchet \<noteq> 0" "ratchet_ratchet example_ratchet \<noteq> 0"
    "0 \<le> ratchet_jMax example_ratchet"
    by (simp_all add: example_ratchet_def)
  have t: "ratchet_applyImpulse example_ratchet (example_body 0 0) (example_body 0 10) =
     (example_ratchet\<lparr>ratchet_jAcc := 0\<rparr>, (example_body 0 0)\<lparr>b_w := 5\<rparr>,
      (example_body 0 10)\<lparr>b_w := 5\<rparr>)"
    using T [THEN conjunct2, THEN conjunct2, THEN conjunct2, THEN conjunct2, THEN conjunct1,
        rule_format, OF th]
    by (simp add: example_ratchet_def example_body_def spec_total_def spec_delta_def clamp_def)
  show ?thesis
    using g ph p vh v rh r th t w z by blast
qed

section \<open>The pin joint at zero distance\<close>

lemma is_finite_iff: "is_finite x \<longleftrightarrow> (\<exists>r. x = Finite r)"
  by (cases x) (simp_all add: is_finite_def)

lemma is_finite_not_NaN: "is_finite x \<Longrightarrow> x \<noteq> NaN"
  by (auto simp: is_finite_iff)

lemma dv_finite_iff: "dv_finite v \<longleftrightarrow> (\<exists>r s. v = DVect (Finite r) (Finite s))"
  by (cases v) (auto simp: dv_finite_def is_finite_iff)

lemma dv_finite_ok: "dv_finite v \<Longrightarrow> dv_ok v"
  by (auto simp: dv_finite_iff dv_ok_def)

lemma dv_finite_dvadd: "dv_finite v \<Longrightarrow> dv_finite w \<Longrightarrow> dv_finite (dvadd v w)"
  by (auto simp: dv_finite_iff dvadd_def)

lemma dv_finite_dvsub: "dv_finite v \<Longrightarrow> dv_finite w \<Longrightarrow> dv_finite (dvsub v w)"
  by (auto simp: dv_finite_iff dvsub_def dsub_def)

lemma dv_finite_dvrotate: "dv_finite v \<Longrightarrow> dv_finite w \<Longrightarrow> dv_finite (dvrotate v w)"
  by (auto simp: dv_finite_iff dvrotate_def dsub_def)

lemma dvlength_zero:
  assumes "dv_finite v" and "dvlength v = Finite 0"
  shows "v = DVect (Finite 0) (Finite 0)"
proof -
  from assms(1) obtain r s where v: "v = DVect (Finite r) (Finite s)"
    by (auto simp: dv_finite_iff)
  have "0 \<le> r * r + s * s" by simp
  with assms(2) v have "sqrt (r * r + s * s) = 0"
    by (simp add: dvlength_def not_less [symmetric])
  then have "r * r + s * s = 0" by simp
  then have "r = 0 \<and> s = 0" by (simp add: sum_squares_eq_zero_iff)
  with v show ?thesis by simp
qed

lemma dvlength_zero_vector: "dvlength (DVect (Finite 0) (Finite 0)) = Finite 0"
  by (simp add: dvlength_def)

lemma d_k_scalar_body_zero:
  assumes "dbody_finite bd" and "dv_finite r"
  shows "is_finite (d_k_scalar_body bd r (DVect (Finite 0) (Finite 0)))"
  using assms
  by (auto simp: dbody_finite_def dv_finite_iff is_finite_iff d_k_scalar_body_def dvcross_def
        dsub_def)

lemma d_k_scalar_zero:
  assumes "dbody_finite a" and "dbody_finite b" and "dv_finite r1" and "dv_finite r2"
  shows "is_finite (d_k_scalar a b r1 r2 (DVect (Finite 0) (Finite 0)))"
  using d_k_scalar_body_zero [OF assms(1,3)] d_k_scalar_body_zero [OF assms(2,4)]
  by (auto simp: is_finite_iff d_k_scalar_def)

lemma ddiv_one_finite: "is_finite k \<Longrightarrow> ddiv (Finite 1) k \<noteq> NaN"
  by (auto simp: is_finite_iff dinf_def split: if_splits)

lemma dclamp_not_NaN: "f \<noteq> NaN \<Longrightarrow> lo \<noteq> NaN \<Longrightarrow> hi \<noteq> NaN \<Longrightarrow> dclamp f lo hi \<noteq> NaN"
  by (simp add: dclamp_def dmax_def dmin_def)

lemma dneg_not_NaN: "x \<noteq> NaN \<Longrightarrow> dneg x \<noteq> NaN"
  by (cases x) simp_all

lemma dmul_dt_not_NaN: "x \<noteq> NaN \<Longrightarrow> dt \<noteq> 0 \<Longrightarrow> dmul x (Finite dt) \<noteq> NaN"
  by (cases x) (simp_all add: dinf_def dsign_def sgn_real_def)

lemma pin_bias_finite:
  assumes "is_finite c" and "is_finite d0" and "dt \<noteq> 0"
  shows "is_finite (ddiv (dmul (dneg c) (dsub (Finite 0) d0)) (Finite dt))"
  using assms by (auto simp: is_finite_iff dsub_def)

lemma dpin_new_coincident:
  assumes p: "dv_finite p"
    and pa: "(case a of Some bd \<Rightarrow> dvadd (db_p bd) (dvrotate anchrA (db_rot bd)) | None \<Rightarrow> anchrA) = p"
    and pb: "(case b of Some bd \<Rightarrow> dvadd (db_p bd) (dvrotate anchrB (db_rot bd)) | None \<Rightarrow> anchrB) = p"
  shows "snd (dpin_new tun a b anchrA anchrB) =
           [''You created a 0 length pin joint. A pivot joint will be much more stable.'']"
    and "dpin_dist (fst (dpin_new tun a b anchrA anchrB)) = Finite 0"
proof -
  from p obtain r s where "p = DVect (Finite r) (Finite s)" by (auto simp: dv_finite_iff)
  then have z: "dvlength (dvsub p p) = Finite 0"
    by (simp add: dvsub_def dsub_def dvlength_def)
  show "snd (dpin_new tun a b anchrA anchrB) =
           [''You created a 0 length pin joint. A pivot joint will be much more stable.'']"
    unfolding dpin_new_def Let_def pa pb z by (simp add: assertSoft_def)
  show "dpin_dist (fst (dpin_new tun a b anchrA anchrB)) = Finite 0"
    unfolding dpin_new_def Let_def pa pb z by simp
qed

lemma dpin_new_ok:
  assumes "fst tun \<noteq> NaN" "fst (snd tun) \<noteq> NaN" "snd (snd tun) \<noteq> NaN"
    and "dv_ok anchrA" "dv_ok anchrB"
    and "dpin_dist (fst (dpin_new tun a b anchrA anchrB)) \<noteq> NaN"
  shows "dpin_ok (fst (dpin_new tun a b anchrA anchrB))"
  using assms by (simp add: dpin_new_def Let_def dpin_ok_def)

lemma dpin_preStep_zero:
  assumes ok: "dpin_ok j" and d0: "is_finite (dpin_dist j)"
    and an: "dv_finite (dpin_anchr1 j)" "dv_finite (dpin_anchr2 j)"
    and bd: "dbody_finite a" "dbody_finite b"
    and dt: "0 < dt" and bc: "is_finite (bc (dpin_errorBias j) (Finite dt))"
    and z: "dvlength (dvsub (dvadd (db_p b) (dvrotate (dpin_anchr2 j) (db_rot b)))
                            (dvadd (db_p a) (dvrotate (dpin_anchr1 j) (db_rot a)))) = Finite 0"
  shows "dpin_n (dpin_preStep bc (Finite dt) j a b) = Some (DVect (Finite 0) (Finite 0))"
    and "dpin_ok (dpin_preStep bc (Finite dt) j a b)"
proof -
  define r1 where "r1 = dvrotate (dpin_anchr1 j) (db_rot a)"
  define r2 where "r2 = dvrotate (dpin_anchr2 j) (db_rot b)"
  define delta where "delta = dvsub (dvadd (db_p b) r2) (dvadd (db_p a) r1)"
  have r: "dv_finite r1" "dv_finite r2"
    using an bd by (simp_all add: r1_def r2_def dbody_finite_def dv_finite_dvrotate)
  then have "dv_finite delta"
    using bd by (simp add: delta_def dbody_finite_def dv_finite_dvsub dv_finite_dvadd)
  moreover have len: "dvlength delta = Finite 0"
    using z by (simp add: delta_def r1_def r2_def)
  ultimately have delta: "delta = DVect (Finite 0) (Finite 0)" by (rule dvlength_zero)
  have n: "dvmult delta (ddiv (Finite 1) (if truthy (dvlength delta) then dvlength delta else PosInf)) =
      DVect (Finite 0) (Finite 0)"
    unfolding len unfolding delta by (simp add: truthy_def dvmult_def)
  have k: "ddiv (Finite 1) (d_k_scalar a b r1 r2 (DVect (Finite 0) (Finite 0))) \<noteq> NaN"
    using d_k_scalar_zero [OF bd r] by (rule ddiv_one_finite)
  from dt have dt0: "dt \<noteq> 0" by simp
  have "is_finite (ddiv (dmul (dneg (bc (dpin_errorBias j) (Finite dt)))
      (dsub (Finite 0) (dpin_dist j))) (Finite dt))"
    using bc d0 dt0 by (rule pin_bias_finite)
  then have "ddiv (dmul (dneg (bc (dpin_errorBias j) (Finite dt)))
      (dsub (Finite 0) (dpin_dist j))) (Finite dt) \<noteq> NaN"
    by (rule is_finite_not_NaN)
  moreover from ok have mb: "dpin_maxBias j \<noteq> NaN" by (simp add: dpin_ok_def)
  then have "dneg (dpin_maxBias j) \<noteq> NaN" by (rule dneg_not_NaN)
  moreover note mb
  ultimately have bias: "dclamp (ddiv (dmul (dneg (bc (dpin_errorBias j) (Finite dt)))
      (dsub (Finite 0) (dpin_dist j))) (Finite dt)) (dneg (dpin_maxBias j)) (dpin_maxBias j) \<noteq> NaN"
    by (rule dclamp_not_NaN)
  from ok have "dpin_maxForce j \<noteq> NaN" by (simp add: dpin_ok_def)
  then have jm: "dmul (dpin_maxForce j) (Finite dt) \<noteq> NaN" using dt0 by (rule dmul_dt_not_NaN)
  have step: "dpin_preStep bc (Finite dt) j a b =
      j\<lparr>dpin_r1 := Some r1, dpin_r2 := Some r2, dpin_n := Some (DVect (Finite 0) (Finite 0)),
        dpin_nMass := ddiv (Finite 1) (d_k_scalar a b r1 r2 (DVect (Finite 0) (Finite 0))),
        dpin_bias := dclamp (ddiv (dmul (dneg (bc (dpin_errorBias j) (Finite dt)))
                                    (dsub (Finite 0) (dpin_dist j))) (Finite dt))
                       (dneg (dpin_maxBias j)) (dpin_maxBias j),
        dpin_jnMax := dmul (dpin_maxForce j) (Finite dt)\<rparr>"
    unfolding dpin_preStep_def Let_def r1_def [symmetric] r2_def [symmetric] delta_def [symmetric]
    unfolding n unfolding len by simp
  show "dpin_n (dpin_preStep bc (Finite dt) j a b) = Some (DVect (Finite 0) (Finite 0))"
    unfolding step by simp
  show "dpin_ok (dpin_preStep bc (Finite dt) j a b)"
    unfolding step using ok k bias jm r [THEN dv_finite_ok]
    by (simp add: dpin_ok_def) (simp add: dv_ok_def)
qed

text \<open>
  With a step length of zero the bias of a joint of rest distance zero is \<open>0 / 0\<close>: the
  hypothesis \<open>0 < dt\<close> cannot be dropped.
\<close>

lemma dpin_preStep_zero_dt:
  "dpin_bias (dpin_preStep example_dbc (Finite 0) (fst example_dpin) example_dbody example_dbody) = NaN"
  by (simp add: dpin_preStep_def example_dpin_def dpin_new_def example_dbody_def example_dbc_def
        Let_def dvadd_def dvsub_def dvrotate_def dvlength_def dsub_def dclamp_def dmax_def dmin_def dinf_def)

text \<open>
  C9. A pin joint whose two anchors have the same finite world position \<open>p\<close> is constructed
  with rest distance \<open>0\<close>: the constructor returns the joint with one soft warning (it has
  no failing path), and no number of the joint is \<open>NaN\<close>. Every \<open>preStep\<close> with a positive
  step length on a joint without \<open>NaN\<close> and of finite rest distance, between finite bodies at
  zero separation, takes \<open>1 / Infinity = 0\<close> for the inverse distance, which makes the
  direction \<open>n\<close> the zero vector, and leaves no number of the joint \<open>NaN\<close>; \<open>preStep\<close> does
  not write to the bodies. Numbers are doubles with their special values, finite arithmetic
  exact; \<open>bias_coef\<close> is a parameter \<open>bc\<close> that returns a finite value.
\<close>

theorem pin_zero_length:
  "(dv_finite p \<and>
    (case bodyA of Some bd \<Rightarrow> dvadd (db_p bd) (dvrotate anchrA (db_rot bd)) | None \<Rightarrow> anchrA) = p \<and>
    (case bodyB of Some bd \<Rightarrow> dvadd (db_p bd) (dvrotate anchrB (db_rot bd)) | None \<Rightarrow> anchrB) = p \<and>
    fst tun \<noteq> NaN \<and> fst (snd tun) \<noteq> NaN \<and> snd (snd tun) \<noteq> NaN \<and>
    dv_ok anchrA \<and> dv_ok anchrB \<longrightarrow>
      snd (dpin_new tun bodyA bodyB anchrA anchrB) =
        [''You created a 0 length pin joint. A pivot joint will be much more stable.''] \<and>
      dpin_dist (fst (dpin_new tun bodyA bodyB anchrA anchrB)) = Finite 0 \<and>
      dpin_ok (fst (dpin_new tun bodyA bodyB anchrA anchrB))) \<and>
   (dpin_ok j \<and> is_finite (dpin_dist j) \<and>
    dv_finite (dpin_anchr1 j) \<and> dv_finite (dpin_anchr2 j) \<and>
    dbody_finite a \<and> dbody_finite b \<and> 0 < dt \<and>
    is_finite (bc (dpin_errorBias j) (Finite dt)) \<and>
    dvlength (dvsub (dvadd (db_p b) (dvrotate (dpin_anchr2 j) (db_rot b)))
                    (dvadd (db_p a) (dvrotate (dpin_anchr1 j) (db_rot a)))) = Finite 0 \<longrightarrow>
      dpin_n (dpin_preStep bc (Finite dt) j a b) = Some (DVect (Finite 0) (Finite 0)) \<and>
      dpin_ok (dpin_preStep bc (Finite dt) j a b))"
proof (intro conjI impI)
  assume h: "dv_finite p \<and>
    (case bodyA of Some bd \<Rightarrow> dvadd (db_p bd) (dvrotate anchrA (db_rot bd)) | None \<Rightarrow> anchrA) = p \<and>
    (case bodyB of Some bd \<Rightarrow> dvadd (db_p bd) (dvrotate anchrB (db_rot bd)) | None \<Rightarrow> anchrB) = p \<and>
    fst tun \<noteq> NaN \<and> fst (snd tun) \<noteq> NaN \<and> snd (snd tun) \<noteq> NaN \<and>
    dv_ok anchrA \<and> dv_ok anchrB"
  then have c: "dv_finite p"
    "(case bodyA of Some bd \<Rightarrow> dvadd (db_p bd) (dvrotate anchrA (db_rot bd)) | None \<Rightarrow> anchrA) = p"
    "(case bodyB of Some bd \<Rightarrow> dvadd (db_p bd) (dvrotate anchrB (db_rot bd)) | None \<Rightarrow> anchrB) = p"
    by simp_all
  show "snd (dpin_new tun bodyA bodyB anchrA anchrB) =
        [''You created a 0 length pin joint. A pivot joint will be much more stable.'']"
    using c by (rule dpin_new_coincident(1))
  show d: "dpin_dist (fst (dpin_new tun bodyA bodyB anchrA anchrB)) = Finite 0"
    using c by (rule dpin_new_coincident(2))
  from h have "fst tun \<noteq> NaN" "fst (snd tun) \<noteq> NaN" "snd (snd tun) \<noteq> NaN"
    "dv_ok anchrA" "dv_ok anchrB" by simp_all
  moreover from d have "dpin_dist (fst (dpin_new tun bodyA bodyB anchrA anchrB)) \<noteq> NaN" by simp
  ultimately show "dpin_ok (fst (dpin_new tun bodyA bodyB anchrA anchrB))"
    by (rule dpin_new_ok)
next
  assume h: "dpin_ok j \<and> is_finite (dpin_dist j) \<and>
    dv_finite (dpin_anchr1 j) \<and> dv_finite (dpin_anchr2 j) \<and>
    dbody_finite a \<and> dbody_finite b \<and> 0 < dt \<and>
    is_finite (bc (dpin_errorBias j) (Finite dt)) \<and>
    dvlength (dvsub (dvadd (db_p b) (dvrotate (dpin_anchr2 j) (db_rot b)))
                    (dvadd (db_p a) (dvrotate (dpin_anchr1 j) (db_rot a)))) = Finite 0"
  then have c: "dpin_ok j" "is_finite (dpin_dist j)"
    "dv_finite (dpin_anchr1 j)" "dv_finite (dpin_anchr2 j)"
    "dbody_finite a" "dbody_finite b" "0 < dt"
    "is_finite (bc (dpin_errorBias j) (Finite dt))"
    "dvlength (dvsub (dvadd (db_p b) (dvrotate (dpin_anchr2 j) (db_rot b)))
                    (dvadd (db_p a) (dvrotate (dpin_anchr1 j) (db_rot a)))) = Finite 0"
    by simp_all
  show "dpin_n (dpin_preStep bc (Finite dt) j a b) = Some (DVect (Finite 0) (Finite 0))"
    using c by (rule dpin_preStep_zero(1))
  show "dpin_ok (dpin_preStep bc (Finite dt) j a b)"
    using c by (rule dpin_preStep_zero(2))
qed

theorem pin_zero_length_witness:
  "snd example_dpin =
     [''You created a 0 length pin joint. A pivot joint will be much more stable.''] \<and>
   dpin_dist (fst example_dpin) = Finite 0 \<and>
   dpin_ok (fst example_dpin) \<and>
   dpin_n (dpin_preStep example_dbc (Finite (1 / 60)) (fst example_dpin) example_dbody example_dbody) =
     Some (DVect (Finite 0) (Finite 0)) \<and>
   dpin_ok (dpin_preStep example_dbc (Finite (1 / 60)) (fst example_dpin) example_dbody example_dbody)"
proof -
  have w: "dvadd (db_p example_dbody) (dvrotate (DVect (Finite 0) (Finite 0)) (db_rot example_dbody)) =
      DVect (Finite 0) (Finite 0)"
    by (simp add: example_dbody_def dvadd_def dvrotate_def dsub_def)
  have new: "snd example_dpin =
       [''You created a 0 length pin joint. A pivot joint will be much more stable.''] \<and>
     dpin_dist (fst example_dpin) = Finite 0 \<and> dpin_ok (fst example_dpin)"
    unfolding example_dpin_def
    using w
    by (intro pin_zero_length [where p = "DVect (Finite 0) (Finite 0)"
          and bodyA = "Some example_dbody" and bodyB = "Some example_dbody"
          and anchrA = "DVect (Finite 0) (Finite 0)" and anchrB = "DVect (Finite 0) (Finite 0)"
          and tun = "(PosInf, Finite (1 / 10), PosInf)", THEN conjunct1, rule_format])
       (simp add: dv_finite_def dv_ok_def is_finite_def)
  have an: "dpin_anchr1 (fst example_dpin) = DVect (Finite 0) (Finite 0)"
    "dpin_anchr2 (fst example_dpin) = DVect (Finite 0) (Finite 0)"
    by (simp_all add: example_dpin_def dpin_new_def Let_def)
  have bd: "dbody_finite example_dbody"
    by (simp add: dbody_finite_def example_dbody_def dv_finite_def is_finite_def)
  have step: "dpin_n (dpin_preStep example_dbc (Finite (1 / 60)) (fst example_dpin) example_dbody
        example_dbody) = Some (DVect (Finite 0) (Finite 0)) \<and>
      dpin_ok (dpin_preStep example_dbc (Finite (1 / 60)) (fst example_dpin) example_dbody
        example_dbody)"
    using new bd w
    by (intro pin_zero_length [where j = "fst example_dpin" and a = example_dbody
          and b = example_dbody and dt = "1 / 60" and bc = example_dbc,
          THEN conjunct2, rule_format])
       (simp add: an dv_finite_def is_finite_def example_dbc_def dvsub_def dsub_def dvlength_def)
  from new step show ?thesis by simp
qed

section \<open>Properties of the bounding box tree\<close>

subsection \<open>Running the model\<close>

text \<open>
  The simplifier runs the operations on a concrete store: the congruence rule makes it
  evaluate the first argument of \<open>bindE\<close> before it looks at the continuation.
\<close>

lemma bindE_weak_cong: "m = m' \<Longrightarrow> bindE m f = bindE m' f"
  by simp

lemma bindE_Inr: "bindE (Inr x) f = f x"
  by (simp add: bindE_def)

lemma bindE_Inl: "bindE (Inl e) f = Inl e"
  by (simp add: bindE_def)

lemmas fuel_numeral =
  subtreeInsert.simps(2) [of "pred_numeral k" for k, folded numeral_eq_Suc]
  markLeafQuery.simps(2) [of "pred_numeral k" for k, folded numeral_eq_Suc]
  markSubtree.simps(2) [of "pred_numeral k" for k, folded numeral_eq_Suc]
  markSubtree_up.simps(2) [of "pred_numeral k" for k, folded numeral_eq_Suc]
  markSubtree_pairs.simps(2) [of "pred_numeral k" for k, folded numeral_eq_Suc]
  clearPairs_loop.simps(2) [of "pred_numeral k" for k, folded numeral_eq_Suc]
  replaceChild_loop.simps(2) [of "pred_numeral k" for k, folded numeral_eq_Suc]
  subtreeQuery.simps(2) [of "pred_numeral k" for k, folded numeral_eq_Suc]
  subtreeSegmentQuery.simps(2) [of "pred_numeral k" for k, folded numeral_eq_Suc]

lemmas heap_ops = node_at_def pair_at_def tree_at_def shape_at_def upd_node_def upd_pair_def
  upd_tree_def set_node_def set_pair_def getBB_def getStamp_def incrementStamp_def setA_def
  setB_def Node_constructor_def blank_node_def makeNode_def Node_recycle_def Leaf_recycle_def
  recycle_def otherChild_def replaceChild_def Pair_recycle_def makePair_def unlinkThread_def
  pairInsert_def clearPairs_def call_func_def subtreeRemove_def Leaf_new_def update_def
  addPairs_def insert_shape_def remove_shape_def contains_def collideStatic_def
  reindexQuery_def reindex_def reindexObject_def query_def segmentQuery_def BBTree_new_def
  empty_heap_def containsObj_def bbTreeIntersectsNode_def intersectsBB_def bbArea_def
  bbTreeMergedArea_def bbProximity_def leaves_delete_def assertSoft_def

lemmas example_defs = example_box_def example_world_def example_trees_def

subsection \<open>Pairs of a reindex pass\<close>

text \<open>
  C3 fails on the code. With the static shape inserted before the dynamic one, both leaves
  get the stamp \<open>0\<close>: the static index reads its own stamp as long as the stamp of the
  dynamic index is \<open>0\<close>, which \<open>getStamp\<close> takes for absent. The dynamic leaf then finds the
  static leaf not older than itself and records no pair, and the reindex pass, in which
  the unmoved dynamic leaf only walks its recorded pairs, calls the callback zero times
  although the two leaf boxes overlap.
\<close>

theorem reindex_static_first_no_callback:
  "(case example_static_first of
      Inl e \<Rightarrow> False
    | Inr h \<Rightarrow>
        h_calls h = [] \<and>
        (case (h_nodes h 0, h_nodes h 1) of
           (Some s, Some d) \<Rightarrow>
             n_isLeaf s \<and> n_obj s = Some 0 \<and> n_isLeaf d \<and> n_obj d = Some 1 \<and>
             bbTreeIntersectsNode s d \<and> n_stamp s = 0 \<and> n_stamp d = 0
         | _ \<Rightarrow> False) \<and>
        (case (h_trees h 0, h_trees h 1) of
           (Some st, Some dy) \<Rightarrow>
             t_root st = Some 0 \<and> map_of (t_leaves st) 0 = Some 0 \<and>
             t_root dy = Some 1 \<and> map_of (t_leaves dy) 1 = Some 1
         | _ \<Rightarrow> False))"
  unfolding example_static_first_def example_defs
  by (simp add: heap_ops fuel_numeral bindE_Inr bindE_Inl Let_def cong: bindE_weak_cong)

text \<open>
  In the other order the static leaf is inserted under the stamp of the dynamic index,
  records the pair itself, and the same reindex pass calls the callback once.
\<close>

lemma reindex_dynamic_first_one_callback:
  "(case example_dynamic_first of
      Inl e \<Rightarrow> False
    | Inr h \<Rightarrow> h_calls h = [(Some 0, Some 1)])"
  unfolding example_dynamic_first_def example_defs
  by (simp add: heap_ops fuel_numeral bindE_Inr bindE_Inl Let_def cong: bindE_weak_cong)

subsection \<open>Pooling\<close>


subsection \<open>Reading the store\<close>






lemma upd_node_simps [simp]:
  "h_nodes (upd_node r f h) = (h_nodes h)(r := map_option f (h_nodes h r))"
  "h_pairs (upd_node r f h) = h_pairs h"
  "h_trees (upd_node r f h) = h_trees h"
  "h_shapes (upd_node r f h) = h_shapes h"
  "h_numNodes (upd_node r f h) = h_numNodes h"
  "h_numLeaves (upd_node r f h) = h_numLeaves h"
  "h_numPairs (upd_node r f h) = h_numPairs h"
  "h_calls (upd_node r f h) = h_calls h"
  "h_log (upd_node r f h) = h_log h"
  by (simp_all add: upd_node_def)

lemma upd_pair_simps [simp]:
  "h_nodes (upd_pair r f h) = h_nodes h"
  "h_pairs (upd_pair r f h) = (h_pairs h)(r := map_option f (h_pairs h r))"
  "h_trees (upd_pair r f h) = h_trees h"
  "h_shapes (upd_pair r f h) = h_shapes h"
  "h_numNodes (upd_pair r f h) = h_numNodes h"
  "h_numLeaves (upd_pair r f h) = h_numLeaves h"
  "h_numPairs (upd_pair r f h) = h_numPairs h"
  "h_calls (upd_pair r f h) = h_calls h"
  "h_log (upd_pair r f h) = h_log h"
  by (simp_all add: upd_pair_def)

lemma upd_tree_simps [simp]:
  "h_nodes (upd_tree r f h) = h_nodes h"
  "h_pairs (upd_tree r f h) = h_pairs h"
  "h_trees (upd_tree r f h) = (h_trees h)(r := map_option f (h_trees h r))"
  "h_shapes (upd_tree r f h) = h_shapes h"
  "h_numNodes (upd_tree r f h) = h_numNodes h"
  "h_numLeaves (upd_tree r f h) = h_numLeaves h"
  "h_numPairs (upd_tree r f h) = h_numPairs h"
  "h_calls (upd_tree r f h) = h_calls h"
  "h_log (upd_tree r f h) = h_log h"
  by (simp_all add: upd_tree_def)


subsection \<open>The free lists\<close>


















lemma case_sum_Inr_obtain:
  "(case m of Inl e \<Rightarrow> False | Inr h \<Rightarrow> Q h) \<Longrightarrow> \<exists>h. m = Inr h \<and> Q h"
  by (cases m) simp_all





lemma xreal_le_simps [simp]:
  "Fin x \<le> Fin y \<longleftrightarrow> x \<le> y" "MInf \<le> z" "z \<le> PInf" "\<not> PInf \<le> Fin x" "\<not> Fin x \<le> MInf"
  "\<not> PInf \<le> MInf"
  by (cases z; simp add: less_eq_xreal_def)+

lemma xreal_less_simps [simp]:
  "Fin x < Fin y \<longleftrightarrow> x < y" "\<not> PInf < z" "\<not> z < MInf"
  "Fin x < PInf" "MInf < Fin x" "MInf < PInf"
  by (cases z; auto simp add: less_xreal_def)+

















lemma example_inside_eval:
  "(case example_inside of
      Inl e \<Rightarrow> False
    | Inr h \<Rightarrow>
        h_nodes h 0 = Some \<lparr>n_isLeaf = True, n_obj = Some 1, n_bb_l = 0, n_bb_b = 0,
           n_bb_r = 1, n_bb_t = 1, n_parent = Some 2, n_A = None, n_B = None,
           n_stamp = 0, n_pairs = Some 0\<rparr> \<and>
        h_nodes h 1 = Some \<lparr>n_isLeaf = True, n_obj = Some 4, n_bb_l = 3 / 10, n_bb_b = 0,
           n_bb_r = 2 / 5, n_bb_t = 1, n_parent = Some 2, n_A = None, n_B = None,
           n_stamp = 1, n_pairs = Some 0\<rparr> \<and>
        h_nodes h 2 = Some \<lparr>n_isLeaf = False, n_obj = None, n_bb_l = 0, n_bb_b = 0,
           n_bb_r = 1, n_bb_t = 1, n_parent = None, n_A = Some 1, n_B = Some 0,
           n_stamp = 0, n_pairs = None\<rparr>)"
  unfolding example_inside_def example_one_def example_defs
  by (simp add: heap_ops fuel_numeral bindE_Inr bindE_Inl Let_def cong: bindE_weak_cong)

lemma example_unit_edge_entry:
  "nodeSegmentQuery \<lparr>n_isLeaf = True, n_obj = Some 1, n_bb_l = 0, n_bb_b = 0,
           n_bb_r = 1, n_bb_t = 1, n_parent = Some 2, n_A = None, n_B = None,
           n_stamp = 0, n_pairs = Some 0\<rparr> (Vect 1 (1 / 2)) (Vect (- 5) (1 / 2)) = Fin (1 / 6)"
  by (simp add: nodeSegmentQuery_def xinverse_def Let_def min_def max_def)

lemma example_inside_entry:
  "nodeSegmentQuery \<lparr>n_isLeaf = True, n_obj = Some 4, n_bb_l = 3 / 10, n_bb_b = 0,
           n_bb_r = 2 / 5, n_bb_t = 1, n_parent = Some 2, n_A = None, n_B = None,
           n_stamp = 1, n_pairs = Some 0\<rparr> (Vect 1 (1 / 2)) (Vect (- 5) (1 / 2)) = Fin (1 / 10)"
  by (simp add: nodeSegmentQuery_def xinverse_def Let_def min_def max_def)

text \<open>
  The condition of the last item is needed. \<open>nodeSegmentQuery\<close> gives a box whose edge the
  segment starts on the entry fraction of the opposite edge: here \<open>1/6\<close> for the unit box,
  which the segment is in from its start. The shape inside is visited first and returns
  \<open>1/10\<close>; the unit box is then not visited, though its shape reports a hit at \<open>0\<close>.
\<close>

lemma segment_edge_start:
  "(case example_inside of
      Inl e \<Rightarrow> False
    | Inr h \<Rightarrow>
        shaped h (ANode 2 (ALeaf 1) (ALeaf 0)) \<and>
        subtreeSegmentQuery 5 (Some 2) (Vect 1 (1 / 2)) (Vect (- 5) (1 / 2)) (Fin 1)
          example_edge_hit h = Inr (Fin (1 / 10), [1]) \<and>
        hit_of example_edge_hit h 0 = Fin 0 \<and>
        entry_of h (Vect 1 (1 / 2)) (Vect (- 5) (1 / 2)) 0 = Fin (1 / 6))"
proof -
  from case_sum_Inr_obtain [OF example_inside_eval]
  obtain H where H: "example_inside = Inr H"
    and H0: "h_nodes H 0 = Some \<lparr>n_isLeaf = True, n_obj = Some 1, n_bb_l = 0, n_bb_b = 0,
           n_bb_r = 1, n_bb_t = 1, n_parent = Some 2, n_A = None, n_B = None,
           n_stamp = 0, n_pairs = Some 0\<rparr>"
    and H1: "h_nodes H 1 = Some \<lparr>n_isLeaf = True, n_obj = Some 4, n_bb_l = 3 / 10, n_bb_b = 0,
           n_bb_r = 2 / 5, n_bb_t = 1, n_parent = Some 2, n_A = None, n_B = None,
           n_stamp = 1, n_pairs = Some 0\<rparr>"
    and H2: "h_nodes H 2 = Some \<lparr>n_isLeaf = False, n_obj = None, n_bb_l = 0, n_bb_b = 0,
           n_bb_r = 1, n_bb_t = 1, n_parent = None, n_A = Some 1, n_B = Some 0,
           n_stamp = 0, n_pairs = None\<rparr>"
    by blast
  have sh: "shaped H (ANode 2 (ALeaf 1) (ALeaf 0))"
    using H0 H1 H2 by (simp add: leaf_at_def kids_at_def parent_at_def)
  have five: "(5 :: nat) = Suc (Suc 3)" by simp
  have q: "subtreeSegmentQuery 5 (Some 2) (Vect 1 (1 / 2)) (Vect (- 5) (1 / 2)) (Fin 1)
      example_edge_hit H = Inr (Fin (1 / 10), [1])"
    unfolding five using H0 H1 H2 example_unit_edge_entry example_inside_entry
    by (simp add: node_at_def fuel_numeral bindE_Inr example_edge_hit_def cong: bindE_weak_cong)
  have "hit_of example_edge_hit H 0 = Fin 0" using H0 by (simp add: hit_of_def example_edge_hit_def)
  moreover have "entry_of H (Vect 1 (1 / 2)) (Vect (- 5) (1 / 2)) 0 = Fin (1 / 6)"
    using H0 example_unit_edge_entry by (simp add: entry_of_def)
  ultimately show ?thesis unfolding H using sh q by simp
qed

end
